theory Spec2Isabelle
  imports Main "HOL-Library.Word"
begin

section \<open>Error codes of the stream callbacks (include/c2pa.hpp)\<close>

type_synonym byte = "8 word"

datatype OperationResult = Success | Error

fun OperationResult_int :: "OperationResult \<Rightarrow> int" where
  "OperationResult_int Success = 0"
| "OperationResult_int Error = - 1"

datatype StreamError = InvalidArgument | IoError | NoBufferSpace

text \<open>
  The three enumerators are defined as \<^verbatim>\<open>EINVAL\<close>, \<^verbatim>\<open>EIO\<close> and \<^verbatim>\<open>ENOBUFS\<close> of
  \<^verbatim>\<open><cerrno>\<close>. The header is not part of the sources; the values are those of Linux.
\<close>

definition EINVAL :: int where "EINVAL = 22"
definition EIO :: int where "EIO = 5"
definition ENOBUFS :: int where "ENOBUFS = 105"

fun StreamError_int :: "StreamError \<Rightarrow> int" where
  "StreamError_int InvalidArgument = EINVAL"
| "StreamError_int IoError = EIO"
| "StreamError_int NoBufferSpace = ENOBUFS"

text \<open>
  \<^verbatim>\<open>stream_error_return(e)\<close> stores \<^verbatim>\<open>e\<close> in \<^verbatim>\<open>errno\<close> and returns
  \<^verbatim>\<open>OperationResult::Error\<close>. The model returns the pair (return value, new errno).
\<close>

definition stream_error_return :: "StreamError \<Rightarrow> int \<times> int" where
  "stream_error_return e = (OperationResult_int Error, StreamError_int e)"

section \<open>The native streams behind the context pointer\<close>

text \<open>
  The callbacks are templates over \<^verbatim>\<open>std::istream\<close>, \<^verbatim>\<open>std::ostream\<close> and
  \<^verbatim>\<open>std::iostream\<close>. The stream object is modelled as the state of \<^verbatim>\<open>std::basic_ios\<close>
  (the three error bits), the count of the last unformatted read, and the stream buffer
  behind it. The buffer is one of the two the wrapper meets: an in-memory buffer
  (\<^verbatim>\<open>std::stringbuf\<close>, behind a \<^verbatim>\<open>std::stringstream\<close>), which has a get and a put
  position of its own and accepts no position after its last byte; or a file buffer
  (\<^verbatim>\<open>std::filebuf\<close>, behind the file streams the wrapper opens), which has one position
  for reading and writing, accepts positions after the end of the file, and, once the
  file is closed, fails every transfer and every positioning.
\<close>

datatype device = string_buffer | open_file | closed_file

text \<open>
  The field \<open>faulty\<close> stands for a buffer whose transfer functions (reading, writing,
  synchronising) throw, as a file buffer does on a device error: the stream functions
  that transfer catch that and set \<^verbatim>\<open>badbit\<close>. The positioning functions of the two
  buffers do not throw; they fail by returning \<^verbatim>\<open>pos_type(-1)\<close>.
\<close>

record stream =
  badbit :: bool
  failbit :: bool
  eofbit :: bool
  device :: device
  bytes :: "byte list"
  gpos :: nat
  ppos :: nat
  gcount :: nat
  faulty :: bool

definition ios_bad :: "stream \<Rightarrow> bool" where
  "ios_bad s = badbit s"

definition ios_fail :: "stream \<Rightarrow> bool" where
  "ios_fail s = (failbit s \<or> badbit s)"

definition ios_eof :: "stream \<Rightarrow> bool" where
  "ios_eof s = eofbit s"

definition ios_good :: "stream \<Rightarrow> bool" where
  "ios_good s = (\<not> badbit s \<and> \<not> failbit s \<and> \<not> eofbit s)"

definition ios_clear :: "stream \<Rightarrow> stream" where
  "ios_clear s = s\<lparr>badbit := False, failbit := False, eofbit := False\<rparr>"

datatype seekdir = ios_beg | ios_cur | ios_end

text \<open>
  Moving the get or the put position: the in-memory buffer moves the one position, the
  file buffer its only position, which is both.
\<close>

definition set_gpos :: "stream \<Rightarrow> nat \<Rightarrow> stream" where
  "set_gpos s n =
     (case device s of
        string_buffer \<Rightarrow> s\<lparr>gpos := n\<rparr>
      | open_file \<Rightarrow> s\<lparr>gpos := n, ppos := n\<rparr>
      | closed_file \<Rightarrow> s\<lparr>gpos := n, ppos := n\<rparr>)"

definition set_ppos :: "stream \<Rightarrow> nat \<Rightarrow> stream" where
  "set_ppos s n =
     (case device s of
        string_buffer \<Rightarrow> s\<lparr>ppos := n\<rparr>
      | open_file \<Rightarrow> s\<lparr>gpos := n, ppos := n\<rparr>
      | closed_file \<Rightarrow> s\<lparr>gpos := n, ppos := n\<rparr>)"

text \<open>
  \<^verbatim>\<open>pubseekoff\<close>: the target is the base of the direction (the start, the position
  \<open>pos\<close>, or the end) plus the offset. The in-memory buffer rejects a target before the
  start or after the last byte, the open file a target before the start, the closed
  file every target (\<open>None\<close> stands for \<^verbatim>\<open>pos_type(-1)\<close>).
\<close>

definition seekoff :: "stream \<Rightarrow> nat \<Rightarrow> int \<Rightarrow> seekdir \<Rightarrow> int option" where
  "seekoff s pos off dir =
     (let base = (case dir of ios_beg \<Rightarrow> 0 | ios_cur \<Rightarrow> int pos | ios_end \<Rightarrow> int (length (bytes s)));
          target = base + off
      in case device s of
           string_buffer \<Rightarrow>
             if target < 0 \<or> int (length (bytes s)) < target then None else Some target
         | open_file \<Rightarrow> if target < 0 then None else Some target
         | closed_file \<Rightarrow> None)"

text \<open>
  \<^verbatim>\<open>seekg\<close> clears \<^verbatim>\<open>eofbit\<close>, builds an input sentry (which sets \<^verbatim>\<open>failbit\<close> on a
  stream that is not good) and, unless the stream has failed, positions the get area; a
  failed positioning sets \<^verbatim>\<open>failbit\<close>.
\<close>

definition seekg :: "stream \<Rightarrow> int \<Rightarrow> seekdir \<Rightarrow> stream" where
  "seekg s off dir =
     (let s1 = s\<lparr>eofbit := False\<rparr>
      in if \<not> ios_good s1 then s1\<lparr>failbit := True\<rparr>
         else (case seekoff s1 (gpos s1) off dir of
                 None \<Rightarrow> s1\<lparr>failbit := True\<rparr>
               | Some t \<Rightarrow> set_gpos s1 (nat t)))"

text \<open>
  The output sentry prepares nothing on a stream that is not good, and sets
  \<^verbatim>\<open>failbit\<close> only when \<^verbatim>\<open>badbit\<close> is set: a stream with only \<^verbatim>\<open>eofbit\<close> or
  \<^verbatim>\<open>failbit\<close> is left as it is.
\<close>

definition ostream_sentry :: "stream \<Rightarrow> stream" where
  "ostream_sentry s = (if badbit s then s\<lparr>failbit := True\<rparr> else s)"

text \<open>
  \<^verbatim>\<open>seekp\<close> builds an output sentry and, unless the stream has failed, positions the
  put area; a failed positioning sets \<^verbatim>\<open>failbit\<close>. It does not clear \<^verbatim>\<open>eofbit\<close>.
\<close>

definition seekp :: "stream \<Rightarrow> int \<Rightarrow> seekdir \<Rightarrow> stream" where
  "seekp s off dir =
     (let s1 = ostream_sentry s
      in if ios_fail s1 then s1
         else (case seekoff s1 (ppos s1) off dir of
                 None \<Rightarrow> s1\<lparr>failbit := True\<rparr>
               | Some t \<Rightarrow> set_ppos s1 (nat t)))"

text \<open>
  \<^verbatim>\<open>tellg\<close> builds an input sentry and \<^verbatim>\<open>tellp\<close> an output sentry; each returns
  \<^verbatim>\<open>-1\<close> on a failed stream and otherwise what the buffer answers for an offset of
  zero from the current position.
\<close>

definition tellg :: "stream \<Rightarrow> int \<times> stream" where
  "tellg s =
     (if \<not> ios_good s then (- 1, s\<lparr>failbit := True\<rparr>)
      else (case seekoff s (gpos s) 0 ios_cur of
              None \<Rightarrow> (- 1, s)
            | Some t \<Rightarrow> (t, s)))"

definition tellp :: "stream \<Rightarrow> int \<times> stream" where
  "tellp s =
     (let s1 = ostream_sentry s
      in if ios_fail s1 then (- 1, s1)
         else (case seekoff s1 (ppos s1) 0 ios_cur of
                 None \<Rightarrow> (- 1, s1)
               | Some t \<Rightarrow> (t, s1)))"

text \<open>
  The bytes a read can still extract: those from the get position on; none from a
  closed file.
\<close>

definition readable :: "stream \<Rightarrow> byte list" where
  "readable s =
     (case device s of
        string_buffer \<Rightarrow> drop (gpos s) (bytes s)
      | open_file \<Rightarrow> drop (gpos s) (bytes s)
      | closed_file \<Rightarrow> [])"

text \<open>
  \<^verbatim>\<open>read(buf, n)\<close>: the count of the last read is reset; the sentry sets \<^verbatim>\<open>failbit\<close> on
  a stream that is not good and nothing is extracted; otherwise up to \<open>n\<close> bytes are
  extracted, and fewer than \<open>n\<close> sets \<^verbatim>\<open>failbit\<close> and \<^verbatim>\<open>eofbit\<close>. The second component
  is the bytes stored into the caller's buffer.
\<close>

definition istream_read :: "stream \<Rightarrow> nat \<Rightarrow> stream \<times> byte list" where
  "istream_read s n =
     (let s0 = s\<lparr>gcount := 0\<rparr>
      in if \<not> ios_good s0 then (s0\<lparr>failbit := True\<rparr>, [])
         else if faulty s0 then (s0\<lparr>badbit := True\<rparr>, [])
         else (let got = take n (readable s0);
                   s1 = (set_gpos s0 (gpos s0 + length got))\<lparr>gcount := length got\<rparr>
               in if length got < n then (s1\<lparr>failbit := True, eofbit := True\<rparr>, got)
                  else (s1, got)))"

text \<open>
  A call into the standard library either returns or has undefined behaviour (reading
  through a null pointer).
\<close>

datatype 'a outcome = Returns 'a | Undefined

text \<open>
  \<^verbatim>\<open>write(buf, n)\<close>: on a stream that is not good the output sentry refuses and
  nothing is inserted. Otherwise \<open>n\<close> bytes are taken from the buffer and stored at the
  put position (a file is filled with zeros up to a position after its end); when the
  stream buffer stores a number of bytes other than \<open>n\<close> (a failing buffer, a closed
  file, or a negative \<open>n\<close>, for which it stores nothing) \<^verbatim>\<open>badbit\<close> is set. The buffer
  argument is \<open>None\<close> for a null pointer: reading a positive number of bytes through it
  is undefined.
\<close>

definition ostream_write :: "stream \<Rightarrow> byte list option \<Rightarrow> int \<Rightarrow> stream outcome" where
  "ostream_write s buffer n =
     (if \<not> ios_good s then Returns (ostream_sentry s)
      else if n = 0 then Returns s
      else if n < 0 then Returns (s\<lparr>badbit := True\<rparr>)
      else (case buffer of
              None \<Rightarrow> Undefined
            | Some b \<Rightarrow>
                if faulty s \<or> device s = closed_file then Returns (s\<lparr>badbit := True\<rparr>)
                else Returns (set_ppos
                                (s\<lparr>bytes := take (ppos s) (bytes s)
                                            @ replicate (ppos s - length (bytes s)) 0
                                            @ take (nat n) b
                                            @ drop (ppos s + nat n) (bytes s)\<rparr>)
                                (ppos s + nat n))))"

text \<open>
  \<^verbatim>\<open>flush()\<close>: on a stream that is not good the output sentry refuses; otherwise a
  failing synchronisation of the buffer sets \<^verbatim>\<open>badbit\<close>.
\<close>

definition ostream_flush :: "stream \<Rightarrow> stream" where
  "ostream_flush s =
     (if \<not> ios_good s then ostream_sentry s
      else if faulty s then s\<lparr>badbit := True\<rparr>
      else s)"

section \<open>The callback implementations (c2pa\_internal.hpp, namespace detail)\<close>

text \<open>
  \<^verbatim>\<open>C2paSeekMode\<close> is a C enumeration of the foreign header; \<open>OtherMode\<close> stands for any
  value outside its three enumerators, which the \<^verbatim>\<open>default\<close> branch receives.
\<close>

datatype C2paSeekMode = Start | Current | End | OtherMode

fun whence_to_seekdir :: "C2paSeekMode \<Rightarrow> seekdir" where
  "whence_to_seekdir Start = ios_beg"
| "whence_to_seekdir Current = ios_cur"
| "whence_to_seekdir End = ios_end"
| "whence_to_seekdir OtherMode = ios_beg"

text \<open>
  The context pointer is the address of the native stream; \<open>None\<close> is the null pointer
  and \<open>Some s\<close> a pointer to a stream in state \<open>s\<close>.
\<close>

definition is_stream_usable :: "stream option \<Rightarrow> bool" where
  "is_stream_usable p = (case p of None \<Rightarrow> False | Some s \<Rightarrow> \<not> ios_bad s)"

text \<open>The template parameter \<^verbatim>\<open>Stream\<close>.\<close>

datatype StreamType = std_istream | std_ostream | std_iostream

fun StreamSeekTraits_seek :: "StreamType \<Rightarrow> stream \<Rightarrow> int \<Rightarrow> seekdir \<Rightarrow> stream" where
  "StreamSeekTraits_seek std_istream s offset dir = seekg s offset dir"
| "StreamSeekTraits_seek std_ostream s offset dir = seekp s offset dir"
| "StreamSeekTraits_seek std_iostream s offset dir = seekp (seekg s offset dir) offset dir"

fun StreamSeekTraits_tell :: "StreamType \<Rightarrow> stream \<Rightarrow> int \<times> stream" where
  "StreamSeekTraits_tell std_istream s = tellg s"
| "StreamSeekTraits_tell std_ostream s = tellp s"
| "StreamSeekTraits_tell std_iostream s = tellp s"

text \<open>
  What a callback leaves behind: its return value, \<^verbatim>\<open>errno\<close>, and the stream behind the
  context pointer. The last argument of every callback is \<^verbatim>\<open>errno\<close> at entry.
\<close>

record cb =
  ret :: int
  errno :: int
  strm :: "stream option"

definition cb_error :: "StreamError \<Rightarrow> stream option \<Rightarrow> cb" where
  "cb_error e p = \<lparr>ret = fst (stream_error_return e), errno = snd (stream_error_return e), strm = p\<rparr>"

definition stream_seeker :: "StreamType \<Rightarrow> stream option \<Rightarrow> int \<Rightarrow> C2paSeekMode \<Rightarrow> int \<Rightarrow> cb" where
  "stream_seeker T context offset whence errno0 =
     (case context of
        None \<Rightarrow> cb_error IoError None
      | Some s0 \<Rightarrow>
          if \<not> is_stream_usable (Some s0) then cb_error IoError (Some s0)
          else
            (let dir = whence_to_seekdir whence;
                 s1 = ios_clear s0;
                 s2 = StreamSeekTraits_seek T s1 offset dir
             in if ios_fail s2 then cb_error InvalidArgument (Some s2)
                else if ios_bad s2 then cb_error IoError (Some s2)
                else (let (pos, s3) = StreamSeekTraits_tell T s2
                      in if pos < 0 then cb_error IoError (Some s3)
                         else \<lparr>ret = pos, errno = errno0, strm = Some s3\<rparr>)))"

text \<open>
  The read callback also fills the caller's buffer: \<open>dest\<close> is the buffer after the
  call (\<open>None\<close> for a null pointer).
\<close>

record rd = cb +
  dest :: "byte list option"

definition rd_error :: "StreamError \<Rightarrow> stream option \<Rightarrow> byte list option \<Rightarrow> rd" where
  "rd_error e p b =
     \<lparr>ret = fst (stream_error_return e), errno = snd (stream_error_return e), strm = p, dest = b\<rparr>"

definition stream_reader :: "stream option \<Rightarrow> byte list option \<Rightarrow> int \<Rightarrow> int \<Rightarrow> rd" where
  "stream_reader context buffer sz errno0 =
     (case (context, buffer) of
        (Some s0, Some b) \<Rightarrow>
          if sz < 0 then rd_error InvalidArgument context buffer
          else if sz = 0 then \<lparr>ret = 0, errno = errno0, strm = context, dest = buffer\<rparr>
          else if \<not> is_stream_usable (Some s0) then rd_error IoError context buffer
          else
            (let (s1, got) = istream_read s0 (nat sz);
                 b1 = Some (got @ drop (length got) b)
             in if ios_fail s1 \<and> \<not> ios_eof s1 then rd_error InvalidArgument (Some s1) b1
                else if ios_bad s1 then rd_error IoError (Some s1) b1
                else \<lparr>ret = int (gcount s1), errno = errno0, strm = Some s1, dest = b1\<rparr>)
      | _ \<Rightarrow> rd_error InvalidArgument context buffer)"

text \<open>
  \<^verbatim>\<open>stream_op\<close> runs an operation on the stream behind the context pointer; the
  operation returns its result and the stream it leaves.
\<close>

definition stream_op :: "stream option \<Rightarrow> (stream \<Rightarrow> (int \<times> stream) outcome) \<Rightarrow> int \<Rightarrow> cb outcome" where
  "stream_op context op errno0 =
     (case context of
        None \<Rightarrow> Returns (cb_error IoError None)
      | Some s0 \<Rightarrow>
          if \<not> is_stream_usable (Some s0) then Returns (cb_error IoError (Some s0))
          else (case op s0 of
                  Undefined \<Rightarrow> Undefined
                | Returns (result, s1) \<Rightarrow>
                    if ios_fail s1 then Returns (cb_error InvalidArgument (Some s1))
                    else if ios_bad s1 then Returns (cb_error IoError (Some s1))
                    else Returns \<lparr>ret = result, errno = errno0, strm = Some s1\<rparr>))"

definition stream_writer :: "stream option \<Rightarrow> byte list option \<Rightarrow> int \<Rightarrow> int \<Rightarrow> cb outcome" where
  "stream_writer context buffer sz errno0 =
     stream_op context
       (\<lambda>s. case ostream_write s buffer sz of
              Undefined \<Rightarrow> Undefined
            | Returns s1 \<Rightarrow> Returns (sz, s1))
       errno0"

definition stream_flusher :: "stream option \<Rightarrow> int \<Rightarrow> cb outcome" where
  "stream_flusher context errno0 =
     stream_op context (\<lambda>s. Returns (0, ostream_flush s)) errno0"

section \<open>The three adapters (c2pa\_streams.cpp)\<close>

definition CppIStream_reader :: "stream option \<Rightarrow> byte list option \<Rightarrow> int \<Rightarrow> int \<Rightarrow> rd" where
  "CppIStream_reader context buffer sz errno0 = stream_reader context buffer sz errno0"

definition CppIStream_seeker :: "stream option \<Rightarrow> int \<Rightarrow> C2paSeekMode \<Rightarrow> int \<Rightarrow> cb" where
  "CppIStream_seeker context offset whence errno0 =
     stream_seeker std_istream context offset whence errno0"

definition CppIStream_writer :: "stream option \<Rightarrow> byte list option \<Rightarrow> int \<Rightarrow> int \<Rightarrow> cb" where
  "CppIStream_writer context buffer sz errno0 = cb_error InvalidArgument context"

definition CppIStream_flusher :: "stream option \<Rightarrow> int \<Rightarrow> cb" where
  "CppIStream_flusher context errno0 = cb_error InvalidArgument context"

definition CppOStream_reader :: "stream option \<Rightarrow> byte list option \<Rightarrow> int \<Rightarrow> int \<Rightarrow> rd" where
  "CppOStream_reader context buffer sz errno0 = rd_error InvalidArgument context buffer"

definition CppOStream_seeker :: "stream option \<Rightarrow> int \<Rightarrow> C2paSeekMode \<Rightarrow> int \<Rightarrow> cb" where
  "CppOStream_seeker context offset whence errno0 =
     stream_seeker std_ostream context offset whence errno0"

definition CppOStream_writer :: "stream option \<Rightarrow> byte list option \<Rightarrow> int \<Rightarrow> int \<Rightarrow> cb outcome" where
  "CppOStream_writer context buffer sz errno0 = stream_writer context buffer sz errno0"

definition CppOStream_flusher :: "stream option \<Rightarrow> int \<Rightarrow> cb outcome" where
  "CppOStream_flusher context errno0 = stream_flusher context errno0"

definition CppIOStream_reader :: "stream option \<Rightarrow> byte list option \<Rightarrow> int \<Rightarrow> int \<Rightarrow> rd" where
  "CppIOStream_reader context buffer sz errno0 = stream_reader context buffer sz errno0"

definition CppIOStream_seeker :: "stream option \<Rightarrow> int \<Rightarrow> C2paSeekMode \<Rightarrow> int \<Rightarrow> cb" where
  "CppIOStream_seeker context offset whence errno0 =
     stream_seeker std_iostream context offset whence errno0"

definition CppIOStream_writer :: "stream option \<Rightarrow> byte list option \<Rightarrow> int \<Rightarrow> int \<Rightarrow> cb outcome" where
  "CppIOStream_writer context buffer sz errno0 = stream_writer context buffer sz errno0"

definition CppIOStream_flusher :: "stream option \<Rightarrow> int \<Rightarrow> cb outcome" where
  "CppIOStream_flusher context errno0 = stream_flusher context errno0"

section \<open>The signer callback trampoline (c2pa\_signer.cpp)\<close>

text \<open>
  The user callback has the type \<^verbatim>\<open>SignerFunc\<close>: it receives the bytes to sign and
  either returns a byte vector or throws, an exception derived from
  \<^verbatim>\<open>std::exception\<close> or anything else.
\<close>

datatype callback_result =
    Returned "byte list"
  | Threw_std_exception string
  | Threw_other

type_synonym SignerFunc = "byte list \<Rightarrow> callback_result"

text \<open>
  What the trampoline leaves behind: its return value, \<^verbatim>\<open>errno\<close> and the output
  buffer (\<open>None\<close> for a null pointer).
\<close>

record sp =
  sp_ret :: int
  sp_errno :: int
  sp_signature :: "byte list option"

text \<open>
  The context pointer is the address of the user callback and is not checked: calling
  through a null context is undefined. \<open>data\<close> points to at least \<open>len\<close> bytes and
  \<open>signature\<close> to at least \<open>sig_max_len\<close> bytes.
\<close>

definition signer_passthrough ::
  "SignerFunc option \<Rightarrow> byte list option \<Rightarrow> nat \<Rightarrow> byte list option \<Rightarrow> nat \<Rightarrow> int \<Rightarrow> sp outcome" where
  "signer_passthrough context data len signature sig_max_len errno0 =
     (case (data, signature) of
        (Some d, Some sg) \<Rightarrow>
          (case context of
             None \<Rightarrow> Undefined
           | Some callback \<Rightarrow>
               (let data_vec = take len d
                in case callback data_vec of
                     Returned signature_vec \<Rightarrow>
                       if sig_max_len < length signature_vec
                       then Returns \<lparr>sp_ret = fst (stream_error_return NoBufferSpace),
                                     sp_errno = snd (stream_error_return NoBufferSpace),
                                     sp_signature = Some sg\<rparr>
                       else Returns \<lparr>sp_ret = int (length signature_vec),
                                     sp_errno = errno0,
                                     sp_signature = Some (signature_vec @ drop (length signature_vec) sg)\<rparr>
                   | Threw_std_exception e \<Rightarrow>
                       Returns \<lparr>sp_ret = OperationResult_int Error, sp_errno = errno0,
                                sp_signature = Some sg\<rparr>
                   | Threw_other \<Rightarrow>
                       Returns \<lparr>sp_ret = OperationResult_int Error, sp_errno = errno0,
                                sp_signature = Some sg\<rparr>))
      | _ \<Rightarrow>
          Returns \<lparr>sp_ret = fst (stream_error_return InvalidArgument),
                   sp_errno = snd (stream_error_return InvalidArgument),
                   sp_signature = signature\<rparr>)"

section \<open>The foreign layer and the exceptions\<close>

text \<open>
  An opaque foreign pointer is a handle; \<open>None\<close> is the null pointer.
\<close>

type_synonym handle = "nat option"

text \<open>
  The exceptions the wrapper throws: its own \<^verbatim>\<open>C2paException\<close> and, in two places,
  exceptions of the standard library.
\<close>

datatype exn =
    C2paException string
  | std_runtime_error string
  | std_system_error string
  | std_filesystem_error string

datatype foreign_fn =
    c2pa_free_fn
  | c2pa_release_stream_fn
  | c2pa_create_stream
  | c2pa_settings_new
  | c2pa_settings_update_from_string
  | c2pa_settings_set_value
  | c2pa_context_new
  | c2pa_context_builder_new
  | c2pa_context_builder_set_settings
  | c2pa_context_builder_build
  | c2pa_builder_from_context
  | c2pa_builder_from_json
  | c2pa_builder_from_archive
  | c2pa_builder_with_definition
  | c2pa_builder_with_archive
  | c2pa_builder_set_no_embed
  | c2pa_builder_set_remote_url
  | c2pa_builder_set_base_path
  | c2pa_builder_add_resource
  | c2pa_builder_add_action
  | c2pa_builder_to_archive
  | c2pa_builder_sign
  | c2pa_reader_from_context
  | c2pa_reader_from_stream
  | c2pa_reader_with_stream
  | c2pa_reader_json
  | c2pa_reader_remote_url
  | c2pa_reader_is_embedded
  | c2pa_reader_resource_to_stream
  | c2pa_signer_create
  | c2pa_signer_from_info
  | c2pa_signer_reserve_size

text \<open>
  Modelled from the spec: the foreign engine behind \<^verbatim>\<open>c2pa.h\<close> is not part of the
  sources. Its state is the handles that are alive, the calls it has received (each
  with the handle it was given, the latest last), a flag raised when a handle that is
  not alive is released or consumed (a double release), and the last-error message.
  What a foreign call returns is an argument of the wrapper function that makes the
  call. A creating call returns a new handle or null; a release call
  (\<^verbatim>\<open>c2pa_free\<close>, \<^verbatim>\<open>c2pa_release_stream\<close>) ends the life of its argument and accepts
  null; a consuming call ends the life of its argument whatever it returns, and
  returns a new handle or null; every other call leaves the handles as they are.
\<close>

record ffi =
  live :: "nat list"
  calls :: "(foreign_fn \<times> handle) list"
  double_release :: bool
  last_error :: string

definition foreign_call :: "foreign_fn \<Rightarrow> handle \<Rightarrow> ffi \<Rightarrow> ffi" where
  "foreign_call f h w = w\<lparr>calls := calls w @ [(f, h)]\<rparr>"

definition foreign_own :: "handle \<Rightarrow> ffi \<Rightarrow> ffi" where
  "foreign_own r w = (case r of None \<Rightarrow> w | Some n \<Rightarrow> w\<lparr>live := n # live w\<rparr>)"

definition foreign_end :: "handle \<Rightarrow> ffi \<Rightarrow> ffi" where
  "foreign_end h w =
     (case h of
        None \<Rightarrow> w
      | Some n \<Rightarrow> if n \<in> set (live w) then w\<lparr>live := removeAll n (live w)\<rparr>
                  else w\<lparr>double_release := True\<rparr>)"

definition foreign_create :: "foreign_fn \<Rightarrow> handle \<Rightarrow> handle \<Rightarrow> ffi \<Rightarrow> ffi" where
  "foreign_create f h r w = foreign_own r (foreign_call f h w)"

definition foreign_consume :: "foreign_fn \<Rightarrow> handle \<Rightarrow> handle \<Rightarrow> ffi \<Rightarrow> ffi" where
  "foreign_consume f h r w = foreign_own r (foreign_end h (foreign_call f h w))"

definition c2pa_free :: "handle \<Rightarrow> ffi \<Rightarrow> ffi" where
  "c2pa_free h w = foreign_end h (foreign_call c2pa_free_fn h w)"

definition c2pa_release_stream :: "handle \<Rightarrow> ffi \<Rightarrow> ffi" where
  "c2pa_release_stream h w = foreign_end h (foreign_call c2pa_release_stream_fn h w)"

text \<open>
  \<^verbatim>\<open>C2paException()\<close> copies the message of \<^verbatim>\<open>c2pa_error()\<close>;
  \<^verbatim>\<open>C2paException(message)\<close> carries the message it is given.
\<close>

definition C2paException_default :: "ffi \<Rightarrow> exn" where
  "C2paException_default w = C2paException (last_error w)"

text \<open>
  A member function returns \<open>Inl\<close> the exception it throws or \<open>Inr\<close> its result,
  together with the object and the foreign state it leaves. A constructor does the
  same; when it throws, the object is its members at the \<^verbatim>\<open>throw\<close> and the foreign
  state is the one after the members that had been built were destroyed.
\<close>

section \<open>The stream adapters' construction (include/c2pa.hpp)\<close>

record CppStream =
  c_stream :: handle

definition CppStream_ctor :: "StreamType \<Rightarrow> handle \<Rightarrow> ffi \<Rightarrow> (exn + unit) \<times> CppStream \<times> ffi" where
  "CppStream_ctor T create_reply w =
     (let w1 = foreign_create c2pa_create_stream None create_reply w;
          this = \<lparr>c_stream = create_reply\<rparr>
      in if create_reply = None
         then (Inl (C2paException
                 (case T of
                    std_istream \<Rightarrow> ''Failed to create input stream wrapper: is stream open and valid?''
                  | std_ostream \<Rightarrow> ''Failed to create output stream wrapper: is stream open and valid?''
                  | std_iostream \<Rightarrow> ''Failed to create I/O stream wrapper: is stream open and valid?'')),
               this, w1)
         else (Inr (), this, w1))"

definition CppStream_dtor :: "CppStream \<Rightarrow> ffi \<Rightarrow> ffi" where
  "CppStream_dtor this w = c2pa_release_stream (c_stream this) w"

section \<open>Settings (c2pa\_settings.cpp)\<close>

record Settings =
  settings_ptr :: handle

definition Settings_ctor :: "handle \<Rightarrow> ffi \<Rightarrow> (exn + unit) \<times> Settings \<times> ffi" where
  "Settings_ctor new_reply w =
     (let w1 = foreign_create c2pa_settings_new None new_reply w;
          this = \<lparr>settings_ptr = new_reply\<rparr>
      in if settings_ptr this = None
         then (Inl (C2paException ''Failed to create Settings''), this, w1)
         else (Inr (), this, w1))"

definition Settings_ctor_data :: "handle \<Rightarrow> int \<Rightarrow> ffi \<Rightarrow> (exn + unit) \<times> Settings \<times> ffi" where
  "Settings_ctor_data new_reply update_reply w =
     (let w1 = foreign_create c2pa_settings_new None new_reply w;
          this = \<lparr>settings_ptr = new_reply\<rparr>
      in if settings_ptr this = None
         then (Inl (C2paException ''Failed to create Settings''), this, w1)
         else (let w2 = foreign_call c2pa_settings_update_from_string (settings_ptr this) w1
               in if update_reply \<noteq> 0
                  then (let w3 = c2pa_free (settings_ptr this) w2
                        in (Inl (C2paException_default w3), this, w3))
                  else (Inr (), this, w2)))"

definition Settings_move_ctor :: "Settings \<Rightarrow> Settings \<times> Settings" where
  "Settings_move_ctor other = (\<lparr>settings_ptr = settings_ptr other\<rparr>, other\<lparr>settings_ptr := None\<rparr>)"

text \<open>
  Move assignment compares the addresses of the two objects; \<open>same\<close> says that they
  are one object. The result is the target, the source, and the foreign state.
\<close>

definition Settings_move_assign :: "bool \<Rightarrow> Settings \<Rightarrow> Settings \<Rightarrow> ffi \<Rightarrow> Settings \<times> Settings \<times> ffi" where
  "Settings_move_assign same this other w =
     (if same then (this, other, w)
      else (let w1 = c2pa_free (settings_ptr this) w
            in (this\<lparr>settings_ptr := settings_ptr other\<rparr>, other\<lparr>settings_ptr := None\<rparr>, w1)))"

definition Settings_dtor :: "Settings \<Rightarrow> ffi \<Rightarrow> ffi" where
  "Settings_dtor this w = c2pa_free (settings_ptr this) w"

definition Settings_is_valid :: "Settings \<Rightarrow> bool" where
  "Settings_is_valid this = (settings_ptr this \<noteq> None)"

definition Settings_set :: "Settings \<Rightarrow> int \<Rightarrow> ffi \<Rightarrow> (exn + unit) \<times> Settings \<times> ffi" where
  "Settings_set this set_reply w =
     (if settings_ptr this = None
      then (Inl (C2paException ''Settings object is invalid''), this, w)
      else (let w1 = foreign_call c2pa_settings_set_value (settings_ptr this) w
            in if set_reply \<noteq> 0 then (Inl (C2paException_default w1), this, w1)
               else (Inr (), this, w1)))"

definition Settings_update :: "Settings \<Rightarrow> int \<Rightarrow> ffi \<Rightarrow> (exn + unit) \<times> Settings \<times> ffi" where
  "Settings_update this update_reply w =
     (if settings_ptr this = None
      then (Inl (C2paException ''Settings object is invalid''), this, w)
      else (let w1 = foreign_call c2pa_settings_update_from_string (settings_ptr this) w
            in if update_reply \<noteq> 0 then (Inl (C2paException_default w1), this, w1)
               else (Inr (), this, w1)))"

definition Settings_c_settings :: "Settings \<Rightarrow> handle" where
  "Settings_c_settings this = settings_ptr this"

section \<open>Context and ContextBuilder (c2pa\_context.cpp)\<close>

text \<open>The member \<^verbatim>\<open>context\<close> of the class is the field \<open>context_ptr\<close>.\<close>

record Context =
  context_ptr :: handle

text \<open>
  What \<^verbatim>\<open>Reader\<close> and \<^verbatim>\<open>Builder\<close> see of an \<^verbatim>\<open>IContextProvider\<close>: the answers of
  \<^verbatim>\<open>is_valid()\<close> and \<^verbatim>\<open>c_context()\<close>.
\<close>

record provider =
  prov_is_valid :: bool
  prov_c_context :: handle

definition Context_ctor_ptr :: "handle \<Rightarrow> (exn + unit) \<times> Context" where
  "Context_ctor_ptr ctx =
     (let this = \<lparr>context_ptr = ctx\<rparr>
      in if context_ptr this = None then (Inl (C2paException ''Invalid context pointer''), this)
         else (Inr (), this))"

definition Context_ctor :: "handle \<Rightarrow> ffi \<Rightarrow> (exn + unit) \<times> Context \<times> ffi" where
  "Context_ctor new_reply w =
     (let w1 = foreign_create c2pa_context_new None new_reply w;
          this = \<lparr>context_ptr = new_reply\<rparr>
      in if context_ptr this = None
         then (Inl (C2paException ''Failed to create Context''), this, w1)
         else (Inr (), this, w1))"

definition Context_ctor_settings ::
  "Settings \<Rightarrow> handle \<Rightarrow> int \<Rightarrow> handle \<Rightarrow> ffi \<Rightarrow> (exn + unit) \<times> Context \<times> ffi" where
  "Context_ctor_settings settings builder_reply set_reply build_reply w =
     (let this = \<lparr>context_ptr = None\<rparr>
      in if \<not> Settings_is_valid settings
         then (Inl (C2paException ''Settings object is invalid''), this, w)
         else
           (let w1 = foreign_create c2pa_context_builder_new None builder_reply w
            in if builder_reply = None
               then (Inl (C2paException ''Failed to create Context builder''), this, w1)
               else
                 (let w2 = foreign_call c2pa_context_builder_set_settings builder_reply w1
                  in if set_reply \<noteq> 0
                     then (let w3 = c2pa_free builder_reply w2
                           in (Inl (C2paException_default w3), this, w3))
                     else
                       (let w3 = foreign_consume c2pa_context_builder_build builder_reply build_reply w2;
                            this1 = this\<lparr>context_ptr := build_reply\<rparr>
                        in if context_ptr this1 = None
                           then (Inl (C2paException ''Failed to build context''), this1, w3)
                           else (Inr (), this1, w3)))))"

text \<open>
  \<^verbatim>\<open>Context(json)\<close> delegates to \<^verbatim>\<open>Context(Settings(json, "json"))\<close>; the temporary
  \<^verbatim>\<open>Settings\<close> is destroyed when the delegation ends, normally or not.
\<close>

definition Context_ctor_json ::
  "handle \<Rightarrow> int \<Rightarrow> handle \<Rightarrow> int \<Rightarrow> handle \<Rightarrow> ffi \<Rightarrow> (exn + unit) \<times> Context \<times> ffi" where
  "Context_ctor_json new_reply update_reply builder_reply set_reply build_reply w =
     (case Settings_ctor_data new_reply update_reply w of
        (Inl e, tmp, w1) \<Rightarrow> (Inl e, \<lparr>context_ptr = None\<rparr>, w1)
      | (Inr u, tmp, w1) \<Rightarrow>
          (case Context_ctor_settings tmp builder_reply set_reply build_reply w1 of
             (r, this, w2) \<Rightarrow> (r, this, Settings_dtor tmp w2)))"

definition Context_move_ctor :: "Context \<Rightarrow> Context \<times> Context" where
  "Context_move_ctor other = (\<lparr>context_ptr = context_ptr other\<rparr>, other\<lparr>context_ptr := None\<rparr>)"

definition Context_move_assign :: "bool \<Rightarrow> Context \<Rightarrow> Context \<Rightarrow> ffi \<Rightarrow> Context \<times> Context \<times> ffi" where
  "Context_move_assign same this other w =
     (if same then (this, other, w)
      else (let w1 = (if context_ptr this \<noteq> None then c2pa_free (context_ptr this) w else w)
            in (this\<lparr>context_ptr := context_ptr other\<rparr>, other\<lparr>context_ptr := None\<rparr>, w1)))"

definition Context_dtor :: "Context \<Rightarrow> ffi \<Rightarrow> ffi" where
  "Context_dtor this w = (if context_ptr this \<noteq> None then c2pa_free (context_ptr this) w else w)"

definition Context_c_context :: "Context \<Rightarrow> handle" where
  "Context_c_context this = context_ptr this"

definition Context_is_valid :: "Context \<Rightarrow> bool" where
  "Context_is_valid this = (context_ptr this \<noteq> None)"

definition Context_provider :: "Context \<Rightarrow> provider" where
  "Context_provider this = \<lparr>prov_is_valid = Context_is_valid this, prov_c_context = Context_c_context this\<rparr>"

record ContextBuilder =
  context_builder :: handle

definition ContextBuilder_ctor :: "handle \<Rightarrow> ffi \<Rightarrow> (exn + unit) \<times> ContextBuilder \<times> ffi" where
  "ContextBuilder_ctor new_reply w =
     (let w1 = foreign_create c2pa_context_builder_new None new_reply w;
          this = \<lparr>context_builder = new_reply\<rparr>
      in if context_builder this = None
         then (Inl (C2paException ''Failed to create Context builder''), this, w1)
         else (Inr (), this, w1))"

definition ContextBuilder_move_ctor :: "ContextBuilder \<Rightarrow> ContextBuilder \<times> ContextBuilder" where
  "ContextBuilder_move_ctor other =
     (\<lparr>context_builder = context_builder other\<rparr>, other\<lparr>context_builder := None\<rparr>)"

definition ContextBuilder_move_assign ::
  "bool \<Rightarrow> ContextBuilder \<Rightarrow> ContextBuilder \<Rightarrow> ffi \<Rightarrow> ContextBuilder \<times> ContextBuilder \<times> ffi" where
  "ContextBuilder_move_assign same this other w =
     (if same then (this, other, w)
      else (let w1 = (if context_builder this \<noteq> None then c2pa_free (context_builder this) w else w)
            in (this\<lparr>context_builder := context_builder other\<rparr>,
                other\<lparr>context_builder := None\<rparr>, w1)))"

definition ContextBuilder_dtor :: "ContextBuilder \<Rightarrow> ffi \<Rightarrow> ffi" where
  "ContextBuilder_dtor this w =
     (if context_builder this \<noteq> None then c2pa_free (context_builder this) w else w)"

definition ContextBuilder_is_valid :: "ContextBuilder \<Rightarrow> bool" where
  "ContextBuilder_is_valid this = (context_builder this \<noteq> None)"

definition ContextBuilder_with_settings ::
  "ContextBuilder \<Rightarrow> Settings \<Rightarrow> int \<Rightarrow> ffi \<Rightarrow> (exn + unit) \<times> ContextBuilder \<times> ffi" where
  "ContextBuilder_with_settings this settings set_reply w =
     (if \<not> ContextBuilder_is_valid this
      then (Inl (C2paException ''ContextBuilder is invalid (moved from)''), this, w)
      else if \<not> Settings_is_valid settings
      then (Inl (C2paException ''Settings object is invalid''), this, w)
      else (let w1 = foreign_call c2pa_context_builder_set_settings (context_builder this) w
            in if set_reply \<noteq> 0 then (Inl (C2paException_default w1), this, w1)
               else (Inr (), this, w1)))"

definition ContextBuilder_with_json ::
  "ContextBuilder \<Rightarrow> handle \<Rightarrow> int \<Rightarrow> int \<Rightarrow> ffi \<Rightarrow> (exn + unit) \<times> ContextBuilder \<times> ffi" where
  "ContextBuilder_with_json this new_reply update_reply set_reply w =
     (if \<not> ContextBuilder_is_valid this
      then (Inl (C2paException ''ContextBuilder is invalid (moved from)''), this, w)
      else (case Settings_ctor_data new_reply update_reply w of
              (Inl e, tmp, w1) \<Rightarrow> (Inl e, this, w1)
            | (Inr u, tmp, w1) \<Rightarrow>
                (case ContextBuilder_with_settings this tmp set_reply w1 of
                   (r, this1, w2) \<Rightarrow> (r, this1, Settings_dtor tmp w2))))"

text \<open>
  \<^verbatim>\<open>detail::open_file_binary\<close> throws when the file does not open; \<open>opens\<close> is the
  answer of the file system.
\<close>

definition open_file_binary :: "string \<Rightarrow> bool \<Rightarrow> exn + unit" where
  "open_file_binary path_str opens =
     (if \<not> opens then Inl (C2paException (''Failed to open file: '' @ path_str)) else Inr ())"

definition ContextBuilder_with_json_settings_file ::
  "ContextBuilder \<Rightarrow> string \<Rightarrow> bool \<Rightarrow> handle \<Rightarrow> int \<Rightarrow> int \<Rightarrow> ffi
     \<Rightarrow> (exn + unit) \<times> ContextBuilder \<times> ffi" where
  "ContextBuilder_with_json_settings_file this settings_path opens new_reply update_reply set_reply w =
     (if \<not> ContextBuilder_is_valid this
      then (Inl (C2paException ''ContextBuilder is invalid (moved from)''), this, w)
      else (case open_file_binary settings_path opens of
              Inl e \<Rightarrow> (Inl e, this, w)
            | Inr u \<Rightarrow> ContextBuilder_with_json this new_reply update_reply set_reply w))"

definition ContextBuilder_create_context ::
  "ContextBuilder \<Rightarrow> handle \<Rightarrow> ffi \<Rightarrow> (exn + Context) \<times> ContextBuilder \<times> ffi" where
  "ContextBuilder_create_context this build_reply w =
     (if \<not> ContextBuilder_is_valid this
      then (Inl (C2paException ''ContextBuilder is invalid (moved from)''), this, w)
      else (let w1 = foreign_consume c2pa_context_builder_build (context_builder this) build_reply w
            in if build_reply = None
               then (Inl (C2paException ''Failed to build context''), this, w1)
               else (let this1 = this\<lparr>context_builder := None\<rparr>
                     in case Context_ctor_ptr build_reply of
                          (Inl e, c) \<Rightarrow> (Inl e, this1, w1)
                        | (Inr u, c) \<Rightarrow> (Inr c, this1, w1))))"

section \<open>Signer (c2pa\_signer.cpp, include/c2pa.hpp)\<close>

record Signer =
  signer :: handle

definition Signer_ctor_callback :: "handle \<Rightarrow> ffi \<Rightarrow> (exn + unit) \<times> Signer \<times> ffi" where
  "Signer_ctor_callback create_reply w =
     (Inr (), \<lparr>signer = create_reply\<rparr>, foreign_create c2pa_signer_create None create_reply w)"

definition Signer_ctor_info :: "handle \<Rightarrow> ffi \<Rightarrow> (exn + unit) \<times> Signer \<times> ffi" where
  "Signer_ctor_info from_reply w =
     (Inr (), \<lparr>signer = from_reply\<rparr>, foreign_create c2pa_signer_from_info None from_reply w)"

definition Signer_ctor_ptr :: "handle \<Rightarrow> Signer" where
  "Signer_ctor_ptr c_signer = \<lparr>signer = c_signer\<rparr>"

definition Signer_move_ctor :: "Signer \<Rightarrow> Signer \<times> Signer" where
  "Signer_move_ctor other = (\<lparr>signer = signer other\<rparr>, other\<lparr>signer := None\<rparr>)"

definition Signer_move_assign :: "bool \<Rightarrow> Signer \<Rightarrow> Signer \<Rightarrow> ffi \<Rightarrow> Signer \<times> Signer \<times> ffi" where
  "Signer_move_assign same this other w =
     (if same then (this, other, w)
      else (let w1 = c2pa_free (signer this) w
            in (this\<lparr>signer := signer other\<rparr>, other\<lparr>signer := None\<rparr>, w1)))"

definition Signer_dtor :: "Signer \<Rightarrow> ffi \<Rightarrow> ffi" where
  "Signer_dtor this w = c2pa_free (signer this) w"

definition Signer_c2pa_signer :: "Signer \<Rightarrow> handle" where
  "Signer_c2pa_signer this = signer this"

definition Signer_reserve_size :: "Signer \<Rightarrow> nat \<Rightarrow> ffi \<Rightarrow> (exn + nat) \<times> Signer \<times> ffi" where
  "Signer_reserve_size this size_reply w =
     (Inr size_reply, this, foreign_call c2pa_signer_reserve_size (signer this) w)"

section \<open>Builder (c2pa\_builder.cpp, include/c2pa.hpp)\<close>

record Builder =
  builder :: handle

definition Builder_ctor :: "provider \<Rightarrow> handle \<Rightarrow> ffi \<Rightarrow> (exn + unit) \<times> Builder \<times> ffi" where
  "Builder_ctor ctx from_reply w =
     (let this = \<lparr>builder = None\<rparr>
      in if \<not> prov_is_valid ctx
         then (Inl (C2paException ''Invalid Context provider IContextProvider''), this, w)
         else (let w1 = foreign_create c2pa_builder_from_context (prov_c_context ctx) from_reply w;
                   this1 = this\<lparr>builder := from_reply\<rparr>
               in if builder this1 = None
                  then (Inl (C2paException ''Failed to create builder from context''), this1, w1)
                  else (Inr (), this1, w1)))"

definition Builder_ctor_definition ::
  "provider \<Rightarrow> handle \<Rightarrow> handle \<Rightarrow> ffi \<Rightarrow> (exn + unit) \<times> Builder \<times> ffi" where
  "Builder_ctor_definition ctx from_reply with_reply w =
     (let this = \<lparr>builder = None\<rparr>
      in if \<not> prov_is_valid ctx
         then (Inl (C2paException ''Invalid Context provider IContextProvider''), this, w)
         else (let w1 = foreign_create c2pa_builder_from_context (prov_c_context ctx) from_reply w;
                   this1 = this\<lparr>builder := from_reply\<rparr>
               in if builder this1 = None
                  then (Inl (C2paException ''Failed to create builder from context''), this1, w1)
                  else (let w2 = foreign_consume c2pa_builder_with_definition (builder this1) with_reply w1;
                            updated = with_reply;
                            this2 = this1\<lparr>builder := None\<rparr>
                        in if updated = None then (Inl (C2paException_default w2), this2, w2)
                           else (Inr (), this2\<lparr>builder := updated\<rparr>, w2))))"

definition Builder_ctor_json :: "handle \<Rightarrow> ffi \<Rightarrow> (exn + unit) \<times> Builder \<times> ffi" where
  "Builder_ctor_json from_reply w =
     (let w1 = foreign_create c2pa_builder_from_json None from_reply w;
          this = \<lparr>builder = from_reply\<rparr>
      in if builder this = None then (Inl (C2paException_default w1), this, w1)
         else (Inr (), this, w1))"

text \<open>
  The private constructor behind \<^verbatim>\<open>Builder::from_archive\<close>: the adapter around the
  archive stream is a local and is destroyed when the constructor is left.
\<close>

definition Builder_ctor_archive :: "handle \<Rightarrow> handle \<Rightarrow> ffi \<Rightarrow> (exn + unit) \<times> Builder \<times> ffi" where
  "Builder_ctor_archive create_reply from_reply w =
     (let this = \<lparr>builder = None\<rparr>
      in case CppStream_ctor std_istream create_reply w of
           (Inl e, c_archive, w1) \<Rightarrow> (Inl e, this, w1)
         | (Inr u, c_archive, w1) \<Rightarrow>
             (let w2 = foreign_create c2pa_builder_from_archive (c_stream c_archive) from_reply w1;
                  this1 = this\<lparr>builder := from_reply\<rparr>
              in if builder this1 = None
                 then (Inl (C2paException_default w2), this1, CppStream_dtor c_archive w2)
                 else (Inr (), this1, CppStream_dtor c_archive w2)))"

definition Builder_move_ctor :: "Builder \<Rightarrow> Builder \<times> Builder" where
  "Builder_move_ctor other = (\<lparr>builder = builder other\<rparr>, other\<lparr>builder := None\<rparr>)"

definition Builder_move_assign :: "bool \<Rightarrow> Builder \<Rightarrow> Builder \<Rightarrow> ffi \<Rightarrow> Builder \<times> Builder \<times> ffi" where
  "Builder_move_assign same this other w =
     (if same then (this, other, w)
      else (let w1 = (if builder this \<noteq> None then c2pa_free (builder this) w else w)
            in (this\<lparr>builder := builder other\<rparr>, other\<lparr>builder := None\<rparr>, w1)))"

definition Builder_dtor :: "Builder \<Rightarrow> ffi \<Rightarrow> ffi" where
  "Builder_dtor this w = c2pa_free (builder this) w"

definition Builder_c2pa_builder :: "Builder \<Rightarrow> handle" where
  "Builder_c2pa_builder this = builder this"

definition Builder_set_no_embed :: "Builder \<Rightarrow> ffi \<Rightarrow> (exn + unit) \<times> Builder \<times> ffi" where
  "Builder_set_no_embed this w = (Inr (), this, foreign_call c2pa_builder_set_no_embed (builder this) w)"

definition Builder_set_remote_url :: "Builder \<Rightarrow> int \<Rightarrow> ffi \<Rightarrow> (exn + unit) \<times> Builder \<times> ffi" where
  "Builder_set_remote_url this reply w =
     (let w1 = foreign_call c2pa_builder_set_remote_url (builder this) w
      in if reply < 0 then (Inl (C2paException_default w1), this, w1)
         else (Inr (), this, w1))"

definition Builder_with_definition :: "Builder \<Rightarrow> handle \<Rightarrow> ffi \<Rightarrow> (exn + unit) \<times> Builder \<times> ffi" where
  "Builder_with_definition this with_reply w =
     (let w1 = foreign_consume c2pa_builder_with_definition (builder this) with_reply w;
          updated = with_reply;
          this1 = this\<lparr>builder := None\<rparr>
      in if updated = None then (Inl (C2paException ''Failed to set builder definition''), this1, w1)
         else (Inr (), this1\<lparr>builder := updated\<rparr>, w1))"

definition Builder_set_base_path :: "Builder \<Rightarrow> int \<Rightarrow> ffi \<Rightarrow> (exn + unit) \<times> Builder \<times> ffi" where
  "Builder_set_base_path this reply w =
     (let w1 = foreign_call c2pa_builder_set_base_path (builder this) w
      in if reply < 0 then (Inl (C2paException_default w1), this, w1)
         else (Inr (), this, w1))"

definition Builder_add_resource :: "Builder \<Rightarrow> handle \<Rightarrow> int \<Rightarrow> ffi \<Rightarrow> (exn + unit) \<times> Builder \<times> ffi" where
  "Builder_add_resource this create_reply reply w =
     (case CppStream_ctor std_istream create_reply w of
        (Inl e, c_source, w1) \<Rightarrow> (Inl e, this, w1)
      | (Inr u, c_source, w1) \<Rightarrow>
          (let w2 = foreign_call c2pa_builder_add_resource (builder this) w1
           in if reply < 0 then (Inl (C2paException_default w2), this, CppStream_dtor c_source w2)
              else (Inr (), this, CppStream_dtor c_source w2)))"

definition Builder_add_action :: "Builder \<Rightarrow> int \<Rightarrow> ffi \<Rightarrow> (exn + unit) \<times> Builder \<times> ffi" where
  "Builder_add_action this reply w =
     (let w1 = foreign_call c2pa_builder_add_action (builder this) w
      in if reply < 0 then (Inl (C2paException_default w1), this, w1)
         else (Inr (), this, w1))"

text \<open>
  \<^verbatim>\<open>detail::to_byte_vector\<close> turns the (pointer, length) pair of a foreign call into a
  vector. The byte buffer it frees is not a handle and is not tracked.
\<close>

definition to_byte_vector :: "byte list option \<Rightarrow> int \<Rightarrow> ffi \<Rightarrow> exn + byte list" where
  "to_byte_vector data sz w =
     (case data of
        None \<Rightarrow> Inl (C2paException_default w)
      | Some d \<Rightarrow> if sz < 0 then Inl (C2paException_default w) else Inr (take (nat sz) d))"

text \<open>
  \<^verbatim>\<open>sign(format, source, dest, signer)\<close>, for a destination of type \<^verbatim>\<open>std::ostream\<close> or
  \<^verbatim>\<open>std::iostream\<close> (\<open>T\<close>). The two adapters are locals, destroyed in reverse order when
  the function is left.
\<close>

definition Builder_sign ::
  "StreamType \<Rightarrow> Builder \<Rightarrow> Signer \<Rightarrow> handle \<Rightarrow> handle \<Rightarrow> int \<Rightarrow> byte list option \<Rightarrow> ffi
     \<Rightarrow> (exn + byte list) \<times> Builder \<times> ffi" where
  "Builder_sign T this sgnr source_reply dest_reply sign_reply bytes_reply w =
     (case CppStream_ctor std_istream source_reply w of
        (Inl e, c_source, w1) \<Rightarrow> (Inl e, this, w1)
      | (Inr u, c_source, w1) \<Rightarrow>
          (case CppStream_ctor T dest_reply w1 of
             (Inl e, c_dest, w2) \<Rightarrow> (Inl e, this, CppStream_dtor c_source w2)
           | (Inr u, c_dest, w2) \<Rightarrow>
               (let w3 = foreign_call c2pa_builder_sign (builder this) w2
                in (to_byte_vector bytes_reply sign_reply w3, this,
                    CppStream_dtor c_source (CppStream_dtor c_dest w3)))))"

text \<open>
  The file-path overload. The file system answers whether the source opens, whether the
  destination's directory exists, whether it can be created, and whether the
  destination opens; \<^verbatim>\<open>std::filesystem::create_directories\<close> throws when it fails.
\<close>

record sign_files =
  source_opens :: bool
  dest_dir_exists :: bool
  create_directories_ok :: bool
  dest_opens :: bool

definition Builder_sign_path ::
  "Builder \<Rightarrow> string \<Rightarrow> string \<Rightarrow> Signer \<Rightarrow> sign_files
     \<Rightarrow> handle \<Rightarrow> handle \<Rightarrow> int \<Rightarrow> byte list option \<Rightarrow> ffi
     \<Rightarrow> (exn + byte list) \<times> Builder \<times> ffi" where
  "Builder_sign_path this source_path dest_path sgnr fs source_reply dest_reply sign_reply bytes_reply w =
     (case open_file_binary source_path (source_opens fs) of
        Inl e \<Rightarrow> (Inl e, this, w)
      | Inr u \<Rightarrow>
          if \<not> dest_dir_exists fs \<and> \<not> create_directories_ok fs
          then (Inl (std_filesystem_error ''create_directories''), this, w)
          else if \<not> dest_opens fs
          then (Inl (std_runtime_error (''Failed to open destination file: '' @ dest_path)), this, w)
          else Builder_sign std_iostream this sgnr source_reply dest_reply sign_reply bytes_reply w)"

definition Builder_with_archive :: "Builder \<Rightarrow> handle \<Rightarrow> handle \<Rightarrow> ffi \<Rightarrow> (exn + unit) \<times> Builder \<times> ffi" where
  "Builder_with_archive this create_reply with_reply w =
     (case CppStream_ctor std_istream create_reply w of
        (Inl e, c_archive, w1) \<Rightarrow> (Inl e, this, w1)
      | (Inr u, c_archive, w1) \<Rightarrow>
          (let w2 = foreign_consume c2pa_builder_with_archive (builder this) with_reply w1;
               updated = with_reply;
               this1 = this\<lparr>builder := None\<rparr>
           in if updated = None
              then (Inl (C2paException_default w2), this1, CppStream_dtor c_archive w2)
              else (Inr (), this1\<lparr>builder := updated\<rparr>, CppStream_dtor c_archive w2)))"

definition Builder_to_archive :: "Builder \<Rightarrow> handle \<Rightarrow> int \<Rightarrow> ffi \<Rightarrow> (exn + unit) \<times> Builder \<times> ffi" where
  "Builder_to_archive this create_reply reply w =
     (case CppStream_ctor std_ostream create_reply w of
        (Inl e, c_dest, w1) \<Rightarrow> (Inl e, this, w1)
      | (Inr u, c_dest, w1) \<Rightarrow>
          (let w2 = foreign_call c2pa_builder_to_archive (builder this) w1
           in if reply < 0 then (Inl (C2paException_default w2), this, CppStream_dtor c_dest w2)
              else (Inr (), this, CppStream_dtor c_dest w2)))"

section \<open>Reader (c2pa\_reader.cpp, include/c2pa.hpp)\<close>

text \<open>
  \<open>owned_stream\<close> says whether the reader owns a file stream; \<open>cpp_stream\<close> is the
  adapter it owns, if any.
\<close>

record Reader =
  c2pa_reader :: handle
  owned_stream :: bool
  cpp_stream :: "CppStream option"

definition Reader_members_dtor :: "Reader \<Rightarrow> ffi \<Rightarrow> ffi" where
  "Reader_members_dtor this w =
     (case cpp_stream this of None \<Rightarrow> w | Some a \<Rightarrow> CppStream_dtor a w)"

definition Reader_ctor :: "provider \<Rightarrow> handle \<Rightarrow> handle \<Rightarrow> handle \<Rightarrow> ffi \<Rightarrow> (exn + unit) \<times> Reader \<times> ffi" where
  "Reader_ctor ctx from_reply create_reply with_reply w =
     (let this = \<lparr>c2pa_reader = None, owned_stream = False, cpp_stream = None\<rparr>
      in if \<not> prov_is_valid ctx
         then (Inl (C2paException ''Invalid Context provider IContextProvider''), this, w)
         else
           (let w1 = foreign_create c2pa_reader_from_context (prov_c_context ctx) from_reply w;
                this1 = this\<lparr>c2pa_reader := from_reply\<rparr>
            in if c2pa_reader this1 = None
               then (Inl (C2paException ''Failed to create reader from context''), this1, w1)
               else
                 (case CppStream_ctor std_istream create_reply w1 of
                    (Inl e, a, w2) \<Rightarrow> (Inl e, this1, w2)
                  | (Inr u, a, w2) \<Rightarrow>
                      (let this2 = this1\<lparr>cpp_stream := Some a\<rparr>;
                           w3 = foreign_consume c2pa_reader_with_stream (c2pa_reader this2) with_reply w2;
                           updated = with_reply;
                           this3 = this2\<lparr>c2pa_reader := None\<rparr>
                       in if updated = None
                          then (Inl (C2paException_default w3), this3, Reader_members_dtor this3 w3)
                          else (Inr (), this3\<lparr>c2pa_reader := updated\<rparr>, w3)))))"

definition Reader_ctor_path ::
  "provider \<Rightarrow> string \<Rightarrow> bool \<Rightarrow> handle \<Rightarrow> handle \<Rightarrow> handle \<Rightarrow> ffi \<Rightarrow> (exn + unit) \<times> Reader \<times> ffi" where
  "Reader_ctor_path ctx source_path opens from_reply create_reply with_reply w =
     (let this = \<lparr>c2pa_reader = None, owned_stream = False, cpp_stream = None\<rparr>
      in if \<not> prov_is_valid ctx
         then (Inl (C2paException ''Invalid Context provider IContextProvider''), this, w)
         else
           (let w1 = foreign_create c2pa_reader_from_context (prov_c_context ctx) from_reply w;
                this1 = this\<lparr>c2pa_reader := from_reply\<rparr>
            in if c2pa_reader this1 = None
               then (Inl (C2paException ''Failed to create reader from context''), this1, w1)
               else
                 (let this2 = this1\<lparr>owned_stream := True\<rparr>
                  in if \<not> opens
                     then (Inl (std_system_error (''Failed to open file: '' @ source_path)), this2,
                           c2pa_free (c2pa_reader this2) w1)
                     else
                       (case CppStream_ctor std_istream create_reply w1 of
                          (Inl e, a, w2) \<Rightarrow> (Inl e, this2, w2)
                        | (Inr u, a, w2) \<Rightarrow>
                            (let this3 = this2\<lparr>cpp_stream := Some a\<rparr>;
                                 w3 = foreign_consume c2pa_reader_with_stream (c2pa_reader this3) with_reply w2;
                                 updated = with_reply;
                                 this4 = this3\<lparr>c2pa_reader := None\<rparr>
                             in if updated = None
                                then (Inl (C2paException_default w3), this4, Reader_members_dtor this4 w3)
                                else (Inr (), this4\<lparr>c2pa_reader := updated\<rparr>, w3))))))"

definition Reader_ctor_stream :: "handle \<Rightarrow> handle \<Rightarrow> ffi \<Rightarrow> (exn + unit) \<times> Reader \<times> ffi" where
  "Reader_ctor_stream create_reply from_reply w =
     (let this = \<lparr>c2pa_reader = None, owned_stream = False, cpp_stream = None\<rparr>
      in case CppStream_ctor std_istream create_reply w of
           (Inl e, a, w1) \<Rightarrow> (Inl e, this, w1)
         | (Inr u, a, w1) \<Rightarrow>
             (let this1 = this\<lparr>cpp_stream := Some a\<rparr>;
                  w2 = foreign_create c2pa_reader_from_stream (c_stream a) from_reply w1;
                  this2 = this1\<lparr>c2pa_reader := from_reply\<rparr>
              in if c2pa_reader this2 = None
                 then (Inl (C2paException_default w2), this2, Reader_members_dtor this2 w2)
                 else (Inr (), this2, w2)))"

definition Reader_ctor_path_deprecated ::
  "string \<Rightarrow> bool \<Rightarrow> handle \<Rightarrow> handle \<Rightarrow> ffi \<Rightarrow> (exn + unit) \<times> Reader \<times> ffi" where
  "Reader_ctor_path_deprecated source_path opens create_reply from_reply w =
     (let this = \<lparr>c2pa_reader = None, owned_stream = True, cpp_stream = None\<rparr>
      in if \<not> opens
         then (Inl (std_system_error (''Failed to open file: '' @ source_path)), this, w)
         else (case CppStream_ctor std_istream create_reply w of
                 (Inl e, a, w1) \<Rightarrow> (Inl e, this, w1)
               | (Inr u, a, w1) \<Rightarrow>
                   (let this1 = this\<lparr>cpp_stream := Some a\<rparr>;
                        w2 = foreign_create c2pa_reader_from_stream (c_stream a) from_reply w1;
                        this2 = this1\<lparr>c2pa_reader := from_reply\<rparr>
                    in if c2pa_reader this2 = None
                       then (Inl (C2paException_default w2), this2, Reader_members_dtor this2 w2)
                       else (Inr (), this2, w2))))"

definition Reader_move_ctor :: "Reader \<Rightarrow> Reader \<times> Reader" where
  "Reader_move_ctor other =
     (\<lparr>c2pa_reader = c2pa_reader other, owned_stream = owned_stream other, cpp_stream = cpp_stream other\<rparr>,
      \<lparr>c2pa_reader = None, owned_stream = False, cpp_stream = None\<rparr>)"

definition Reader_move_assign :: "bool \<Rightarrow> Reader \<Rightarrow> Reader \<Rightarrow> ffi \<Rightarrow> Reader \<times> Reader \<times> ffi" where
  "Reader_move_assign same this other w =
     (if same then (this, other, w)
      else (let w1 = (if c2pa_reader this \<noteq> None then c2pa_free (c2pa_reader this) w else w);
                w2 = Reader_members_dtor this w1
            in (\<lparr>c2pa_reader = c2pa_reader other, owned_stream = owned_stream other,
                 cpp_stream = cpp_stream other\<rparr>,
                \<lparr>c2pa_reader = None, owned_stream = False, cpp_stream = None\<rparr>, w2)))"

definition Reader_dtor :: "Reader \<Rightarrow> ffi \<Rightarrow> ffi" where
  "Reader_dtor this w = Reader_members_dtor this (c2pa_free (c2pa_reader this) w)"

definition Reader_json :: "Reader \<Rightarrow> string option \<Rightarrow> ffi \<Rightarrow> (exn + string) \<times> Reader \<times> ffi" where
  "Reader_json this json_reply w =
     (let w1 = foreign_call c2pa_reader_json (c2pa_reader this) w
      in case json_reply of
           None \<Rightarrow> (Inl (C2paException_default w1), this, w1)
         | Some str \<Rightarrow> (Inr str, this, w1))"

definition Reader_is_embedded :: "Reader \<Rightarrow> bool \<Rightarrow> ffi \<Rightarrow> (exn + bool) \<times> Reader \<times> ffi" where
  "Reader_is_embedded this reply w =
     (Inr reply, this, foreign_call c2pa_reader_is_embedded (c2pa_reader this) w)"

definition Reader_remote_url :: "Reader \<Rightarrow> string option \<Rightarrow> ffi \<Rightarrow> (exn + string option) \<times> Reader \<times> ffi" where
  "Reader_remote_url this url_reply w =
     (Inr url_reply, this, foreign_call c2pa_reader_remote_url (c2pa_reader this) w)"

definition Reader_get_resource :: "Reader \<Rightarrow> handle \<Rightarrow> int \<Rightarrow> ffi \<Rightarrow> (exn + int) \<times> Reader \<times> ffi" where
  "Reader_get_resource this create_reply reply w =
     (case CppStream_ctor std_ostream create_reply w of
        (Inl e, output_stream, w1) \<Rightarrow> (Inl e, this, w1)
      | (Inr u, output_stream, w1) \<Rightarrow>
          (let w2 = foreign_call c2pa_reader_resource_to_stream (c2pa_reader this) w1
           in if reply < 0 then (Inl (C2paException_default w2), this, CppStream_dtor output_stream w2)
              else (Inr reply, this, CppStream_dtor output_stream w2)))"

section \<open>Properties\<close>

lemmas ios_defs = ios_bad_def ios_fail_def ios_eof_def ios_good_def ios_clear_def
lemmas err_defs = cb_error_def rd_error_def stream_error_return_def
lemmas ffi_defs = foreign_call_def foreign_own_def foreign_end_def foreign_create_def
  foreign_consume_def c2pa_free_def c2pa_release_stream_def C2paException_default_def

subsection \<open>The read-only adapter\<close>

text \<open>
  C3. The write and the flush callback of the read-only adapter return \<open>-1\<close> and set
  \<^verbatim>\<open>errno\<close> to the invalid-argument code for every context pointer, buffer and size
  (null, negative and zero included); the stream behind the context pointer is left as
  it was, and the result does not depend on it.
\<close>

theorem C3_read_only_adapter_rejects_write_and_flush:
  "ret (CppIStream_writer ctx buffer sz eno) = - 1
   \<and> errno (CppIStream_writer ctx buffer sz eno) = StreamError_int InvalidArgument
   \<and> strm (CppIStream_writer ctx buffer sz eno) = ctx
   \<and> ret (CppIStream_flusher ctx eno) = - 1
   \<and> errno (CppIStream_flusher ctx eno) = StreamError_int InvalidArgument
   \<and> strm (CppIStream_flusher ctx eno) = ctx
   \<and> ret (CppIStream_writer ctx buffer sz eno) = ret (CppIStream_writer ctx' buffer' sz' eno')
   \<and> errno (CppIStream_writer ctx buffer sz eno) = errno (CppIStream_writer ctx' buffer' sz' eno')
   \<and> ret (CppIStream_flusher ctx eno) = ret (CppIStream_flusher ctx' eno')
   \<and> errno (CppIStream_flusher ctx eno) = errno (CppIStream_flusher ctx' eno')"
  by (simp add: CppIStream_writer_def CppIStream_flusher_def cb_error_def stream_error_return_def)

subsection \<open>The read callback\<close>



lemma set_gpos_fields:
  "gcount (set_gpos s n) = gcount s" "badbit (set_gpos s n) = badbit s"
  "failbit (set_gpos s n) = failbit s" "eofbit (set_gpos s n) = eofbit s"
  "gpos (set_gpos s n) = n" "bytes (set_gpos s n) = bytes s" "device (set_gpos s n) = device s"
  by (simp_all add: set_gpos_def split: device.splits)

lemma set_ppos_fields:
  "gcount (set_ppos s n) = gcount s" "badbit (set_ppos s n) = badbit s"
  "failbit (set_ppos s n) = failbit s" "eofbit (set_ppos s n) = eofbit s"
  "ppos (set_ppos s n) = n" "bytes (set_ppos s n) = bytes s" "device (set_ppos s n) = device s"
  by (simp_all add: set_ppos_def split: device.splits)








subsection \<open>The write callback\<close>

text \<open>
  C5. The write callback \<^verbatim>\<open>detail::stream_writer\<close> does not check its buffer or its
  size before it writes. On a good stream, a null buffer with size zero returns 0 and
  sets no error code, and a null buffer with a positive size is handed to
  \<^verbatim>\<open>std::ostream::write\<close>, which reads through it.
\<close>

theorem C5_stream_writer_null_buffer:
  "stream_writer
     (Some \<lparr>badbit = False, failbit = False, eofbit = False, device = string_buffer,
            bytes = [1, 2, 3], gpos = 0, ppos = 0, gcount = 0, faulty = False\<rparr>) None 0 7
     = Returns \<lparr>ret = 0, errno = 7,
                strm = Some \<lparr>badbit = False, failbit = False, eofbit = False, device = string_buffer,
                             bytes = [1, 2, 3], gpos = 0, ppos = 0, gcount = 0, faulty = False\<rparr>\<rparr>
   \<and> stream_writer
     (Some \<lparr>badbit = False, failbit = False, eofbit = False, device = string_buffer,
            bytes = [1, 2, 3], gpos = 0, ppos = 0, gcount = 0, faulty = False\<rparr>) None 5 7
     = Undefined"
  by (simp add: stream_writer_def stream_op_def ostream_write_def is_stream_usable_def ios_defs)

subsection \<open>The seek callback\<close>

lemma seekoff_flags:
  "seekoff (s\<lparr>badbit := a\<rparr>) = seekoff s"
  "seekoff (s\<lparr>failbit := a\<rparr>) = seekoff s"
  "seekoff (s\<lparr>eofbit := a\<rparr>) = seekoff s"
  by (auto simp: seekoff_def fun_eq_iff Let_def split: seekdir.splits device.splits)

lemma seekoff_positions:
  "seekoff (set_gpos s n) = seekoff s"
  "seekoff (set_ppos s n) = seekoff s"
  by (auto simp: seekoff_def set_gpos_def set_ppos_def fun_eq_iff Let_def
           split: seekdir.splits device.splits)

lemma seekoff_nonneg: "seekoff s p off dir = Some t \<Longrightarrow> 0 \<le> t"
  by (auto simp: seekoff_def Let_def split: device.splits if_splits)

lemma seekoff_tell: "seekoff s p off dir = Some t \<Longrightarrow> seekoff s (nat t) 0 ios_cur = Some t"
  by (auto simp: seekoff_def Let_def split: device.splits if_splits)

lemma seeker_unusable:
  "\<not> is_stream_usable ctx \<Longrightarrow>
     ret (stream_seeker T ctx offset whence eno) = - 1 \<and> errno (stream_seeker T ctx offset whence eno) = EIO"
  by (auto simp: stream_seeker_def err_defs split: option.splits)

lemma seekoff_negative_start: "off < 0 \<Longrightarrow> seekoff s pos off ios_beg = None"
  by (simp add: seekoff_def split: device.splits)

lemma seekoff_closed: "device s = closed_file \<Longrightarrow> seekoff s pos off dir = None"
  by (simp add: seekoff_def Let_def)

lemma seeker_negative_start:
  "is_stream_usable ctx \<Longrightarrow> offset < 0 \<Longrightarrow>
     ret (stream_seeker T ctx offset Start eno) = - 1 \<and> errno (stream_seeker T ctx offset Start eno) = EINVAL"
  by (cases T)
     (auto simp: stream_seeker_def err_defs is_stream_usable_def Let_def ios_defs seekg_def seekp_def
                 ostream_sentry_def seekoff_flags seekoff_negative_start split: option.splits)

lemma seeker_closed_file:
  "is_stream_usable (Some s) \<Longrightarrow> device s = closed_file \<Longrightarrow>
     ret (stream_seeker T (Some s) offset whence eno) = - 1
     \<and> errno (stream_seeker T (Some s) offset whence eno) = EINVAL"
  by (cases T)
     (auto simp: stream_seeker_def err_defs is_stream_usable_def Let_def ios_defs seekg_def seekp_def
                 ostream_sentry_def seekoff_flags seekoff_closed split: option.splits)

lemma seeker_success:
  "ret (stream_seeker T ctx offset whence eno) \<noteq> - 1 \<Longrightarrow>
     (case strm (stream_seeker T ctx offset whence eno) of
        None \<Rightarrow> False
      | Some s' \<Rightarrow>
          ret (stream_seeker T ctx offset whence eno) = fst (StreamSeekTraits_tell T s')
          \<and> ios_good s')
     \<and> errno (stream_seeker T ctx offset whence eno) = eno"
  by (cases T)
     (auto simp: stream_seeker_def err_defs is_stream_usable_def Let_def ios_defs seekg_def seekp_def
                 tellg_def tellp_def ostream_sentry_def set_gpos_fields set_ppos_fields
           split: option.splits prod.splits if_splits)

text \<open>
  C6. A stream whose file has been closed has no error flag set, so it passes the test
  at entry; the positioning then fails, \<^verbatim>\<open>failbit\<close> is set, and the seek callback
  returns \<open>-1\<close> with the invalid-argument code, not the I/O-error code.
\<close>

theorem C6_closed_stream_seek_gives_invalid_argument:
  "stream_seeker std_istream
     (Some \<lparr>badbit = False, failbit = False, eofbit = False, device = closed_file,
            bytes = [], gpos = 0, ppos = 0, gcount = 0, faulty = False\<rparr>) 0 Start 7
     = \<lparr>ret = - 1, errno = StreamError_int InvalidArgument,
        strm = Some \<lparr>badbit = False, failbit = True, eofbit = False, device = closed_file,
                     bytes = [], gpos = 0, ppos = 0, gcount = 0, faulty = False\<rparr>\<rparr>
   \<and> StreamError_int InvalidArgument \<noteq> StreamError_int IoError"
  by (simp add: stream_seeker_def err_defs is_stream_usable_def ios_defs seekg_def seekoff_def
                EINVAL_def EIO_def)

text \<open>
  On a usable stream every failure of the seek callback carries the invalid-argument
  code: \<^verbatim>\<open>fail()\<close> is true whenever \<^verbatim>\<open>badbit\<close> is set, so the test of \<^verbatim>\<open>bad()\<close>
  that follows it never decides, and the position found after a seek that worked is not
  negative.
\<close>

lemma seeker_failure_on_usable_stream:
  "is_stream_usable ctx \<Longrightarrow> ret (stream_seeker T ctx offset whence eno) = - 1 \<Longrightarrow>
     errno (stream_seeker T ctx offset whence eno) = EINVAL"
  by (cases T; cases ctx)
     (auto simp: stream_seeker_def err_defs is_stream_usable_def Let_def ios_defs seekg_def seekp_def
                 tellg_def tellp_def ostream_sentry_def set_gpos_fields set_ppos_fields seekoff_flags
                 seekoff_positions seekoff_tell
           split: option.splits prod.splits if_splits dest: seekoff_nonneg)












subsection \<open>The signer callback trampoline\<close>

text \<open>
  C7. The trampoline returns \<open>-1\<close> with the invalid-argument code when the input or
  the output pointer is null; \<open>-1\<close> with the no-buffer-space code when the vector the
  user callback returns is longer than the declared maximum; otherwise it copies the
  vector to the start of the output buffer and returns its length; and when the user
  callback throws, an exception of the standard library or anything else, it returns
  \<open>-1\<close>: no outcome of the callback leaves the trampoline as an exception.
\<close>

theorem C7_signer_passthrough_results:
  "(data = None \<or> signature = None \<longrightarrow>
      signer_passthrough ctx data len signature sig_max_len eno
        = Returns \<lparr>sp_ret = - 1, sp_errno = StreamError_int InvalidArgument, sp_signature = signature\<rparr>)
   \<and> (callback (take len d) = Returned v \<and> sig_max_len < length v \<longrightarrow>
        signer_passthrough (Some callback) (Some d) len (Some sg) sig_max_len eno
          = Returns \<lparr>sp_ret = - 1, sp_errno = StreamError_int NoBufferSpace, sp_signature = Some sg\<rparr>)
   \<and> (callback (take len d) = Returned v \<and> length v \<le> sig_max_len \<longrightarrow>
        signer_passthrough (Some callback) (Some d) len (Some sg) sig_max_len eno
          = Returns \<lparr>sp_ret = int (length v), sp_errno = eno, sp_signature = Some (v @ drop (length v) sg)\<rparr>)
   \<and> (callback (take len d) = Threw_std_exception msg \<or> callback (take len d) = Threw_other \<longrightarrow>
        signer_passthrough (Some callback) (Some d) len (Some sg) sig_max_len eno
          = Returns \<lparr>sp_ret = - 1, sp_errno = eno, sp_signature = Some sg\<rparr>)"
  by (auto simp: signer_passthrough_def stream_error_return_def split: option.splits)

theorem C7_signer_passthrough_results_witness:
  "signer_passthrough (Some (\<lambda>d. Returned (rev d))) None 3 (Some [0, 0, 0, 0]) 4 0
     = Returns \<lparr>sp_ret = - 1, sp_errno = StreamError_int InvalidArgument, sp_signature = Some [0, 0, 0, 0]\<rparr>
   \<and> signer_passthrough (Some (\<lambda>d. Returned (rev d))) (Some [1, 2, 3]) 3 (Some [0, 0]) 2 0
     = Returns \<lparr>sp_ret = - 1, sp_errno = StreamError_int NoBufferSpace, sp_signature = Some [0, 0]\<rparr>
   \<and> signer_passthrough (Some (\<lambda>d. Returned (rev d))) (Some [1, 2, 3]) 3 (Some [0, 0, 0, 0]) 4 0
     = Returns \<lparr>sp_ret = 3, sp_errno = 0, sp_signature = Some [3, 2, 1, 0]\<rparr>
   \<and> signer_passthrough (Some (\<lambda>d. Threw_other)) (Some [1, 2, 3]) 3 (Some [0, 0, 0, 0]) 4 0
     = Returns \<lparr>sp_ret = - 1, sp_errno = 0, sp_signature = Some [0, 0, 0, 0]\<rparr>"
  using C7_signer_passthrough_results
          [where data = None and signature = "Some [0, 0, 0, 0]"
               and ctx = "Some (\<lambda>d. Returned (rev d))" and len = 3 and sig_max_len = 4 and eno = 0
               and callback = "\<lambda>d. Returned (rev d)" and d = "[1, 2, 3]" and v = "[3, 2, 1]"
               and sg = "[0, 0, 0, 0]"]
        C7_signer_passthrough_results
          [where data = None and signature = "Some [0, 0]"
               and ctx = "Some (\<lambda>d. Returned (rev d))" and len = 3 and sig_max_len = 2 and eno = 0
               and callback = "\<lambda>d. Returned (rev d)" and d = "[1, 2, 3]" and v = "[3, 2, 1]"
               and sg = "[0, 0]"]
        C7_signer_passthrough_results
          [where data = None and signature = "Some [0, 0, 0, 0]"
               and ctx = "Some (\<lambda>d. Threw_other)" and len = 3 and sig_max_len = 4 and eno = 0
               and callback = "\<lambda>d. Threw_other" and d = "[1, 2, 3]" and sg = "[0, 0, 0, 0]"]
  by simp

subsection \<open>Consuming calls\<close>

lemma consuming_call_sites_null_before_throw:
  "builder (fst (snd (Builder_with_definition this with_reply w))) = with_reply"
  "create_reply \<noteq> None \<Longrightarrow>
     builder (fst (snd (Builder_with_archive this create_reply with_reply w))) = with_reply"
  "prov_is_valid ctx \<Longrightarrow> from_reply \<noteq> None \<Longrightarrow> create_reply \<noteq> None \<Longrightarrow>
     c2pa_reader (fst (snd (Reader_ctor ctx from_reply create_reply with_reply w))) = with_reply"
  "prov_is_valid ctx \<Longrightarrow> from_reply \<noteq> None \<Longrightarrow> create_reply \<noteq> None \<Longrightarrow>
     c2pa_reader (fst (snd (Reader_ctor_path ctx path True from_reply create_reply with_reply w)))
       = with_reply"
  "prov_is_valid ctx \<Longrightarrow> from_reply \<noteq> None \<Longrightarrow>
     builder (fst (snd (Builder_ctor_definition ctx from_reply with_reply w))) = with_reply"
  by (auto simp: Builder_with_definition_def Builder_with_archive_def Reader_ctor_def Reader_ctor_path_def
                 Builder_ctor_definition_def CppStream_ctor_def Let_def split: prod.splits sum.splits)

lemma release_of_null_is_harmless:
  "double_release (c2pa_free None w) = double_release w"
  by (simp add: ffi_defs)

text \<open>
  C1. \<^verbatim>\<open>ContextBuilder::create_context\<close> throws on a null result before it clears
  \<^verbatim>\<open>context_builder\<close>: after the failed consuming call the builder still holds the handle
  the foreign layer has consumed, and its destructor releases that handle again.
\<close>

theorem C1_create_context_failure_keeps_handle:
  "ContextBuilder_create_context \<lparr>context_builder = Some 7\<rparr> None
     \<lparr>live = [7], calls = [], double_release = False, last_error = ''''\<rparr>
     = (Inl (C2paException ''Failed to build context''),
        \<lparr>context_builder = Some 7\<rparr>,
        \<lparr>live = [], calls = [(c2pa_context_builder_build, Some 7)],
         double_release = False, last_error = ''''\<rparr>)
   \<and> ContextBuilder_dtor \<lparr>context_builder = Some 7\<rparr>
        \<lparr>live = [], calls = [(c2pa_context_builder_build, Some 7)],
         double_release = False, last_error = ''''\<rparr>
     = \<lparr>live = [], calls = [(c2pa_context_builder_build, Some 7), (c2pa_free_fn, Some 7)],
        double_release = True, last_error = ''''\<rparr>"
  by (simp add: ContextBuilder_create_context_def ContextBuilder_is_valid_def ContextBuilder_dtor_def
                ffi_defs)

subsection \<open>Moved-from objects\<close>

text \<open>
  C2, as stated, fails: \<^verbatim>\<open>Builder\<close> has no validity check, and
  \<^verbatim>\<open>Builder::set_remote_url\<close> on a moved-from builder passes the null handle to the
  foreign call and, when that call reports success, returns normally.
\<close>

theorem C2_moved_from_builder_counterexample:
  "snd (Builder_move_ctor \<lparr>builder = Some 1\<rparr>) = \<lparr>builder = None\<rparr>
   \<and> Builder_set_remote_url \<lparr>builder = None\<rparr> 0
        \<lparr>live = [1], calls = [], double_release = False, last_error = ''''\<rparr>
      = (Inr (), \<lparr>builder = None\<rparr>,
         \<lparr>live = [1], calls = [(c2pa_builder_set_remote_url, None)],
          double_release = False, last_error = ''''\<rparr>)"
  by (simp add: Builder_move_ctor_def Builder_set_remote_url_def ffi_defs)

lemma moved_from_handles:
  "settings_ptr (snd (Settings_move_ctor sa)) = None"
  "settings_ptr (fst (snd (Settings_move_assign False sb sa w))) = None"
  "context_ptr (snd (Context_move_ctor ca)) = None"
  "context_ptr (fst (snd (Context_move_assign False cb ca w))) = None"
  "context_builder (snd (ContextBuilder_move_ctor ba)) = None"
  "context_builder (fst (snd (ContextBuilder_move_assign False bb ba w))) = None"
  "c2pa_reader (snd (Reader_move_ctor ra)) = None"
  "c2pa_reader (fst (snd (Reader_move_assign False rb ra w))) = None"
  "builder (snd (Builder_move_ctor ua)) = None"
  "builder (fst (snd (Builder_move_assign False ub ua w))) = None"
  "signer (snd (Signer_move_ctor ga)) = None"
  "signer (fst (snd (Signer_move_assign False gb ga w))) = None"
  by (simp_all add: Settings_move_ctor_def Settings_move_assign_def Context_move_ctor_def
        Context_move_assign_def ContextBuilder_move_ctor_def ContextBuilder_move_assign_def
        Reader_move_ctor_def Reader_move_assign_def Builder_move_ctor_def Builder_move_assign_def
        Signer_move_ctor_def Signer_move_assign_def Let_def)

lemma invalid_settings_refuses:
  "settings_ptr a = None \<Longrightarrow>
     \<not> Settings_is_valid a
     \<and> Settings_set a r w = (Inl (C2paException ''Settings object is invalid''), a, w)
     \<and> Settings_update a r w = (Inl (C2paException ''Settings object is invalid''), a, w)"
  by (simp add: Settings_is_valid_def Settings_set_def Settings_update_def)

lemma invalid_context_builder_refuses:
  "context_builder a = None \<Longrightarrow>
     \<not> ContextBuilder_is_valid a
     \<and> ContextBuilder_with_settings a st r w
         = (Inl (C2paException ''ContextBuilder is invalid (moved from)''), a, w)
     \<and> ContextBuilder_with_json a n u r w
         = (Inl (C2paException ''ContextBuilder is invalid (moved from)''), a, w)
     \<and> ContextBuilder_with_json_settings_file a path opens n u r w
         = (Inl (C2paException ''ContextBuilder is invalid (moved from)''), a, w)
     \<and> ContextBuilder_create_context a h w
         = (Inl (C2paException ''ContextBuilder is invalid (moved from)''), a, w)"
  by (simp add: ContextBuilder_is_valid_def ContextBuilder_with_settings_def ContextBuilder_with_json_def
                ContextBuilder_with_json_settings_file_def ContextBuilder_create_context_def)

text \<open>
  C2, amended. After a move construction, or a move assignment between two distinct
  objects, the source of each of the six handle-wrapped types holds a null handle, and
  \<^verbatim>\<open>is_valid()\<close> is false for the three types that have it (\<^verbatim>\<open>Settings\<close>,
  \<^verbatim>\<open>Context\<close>, \<^verbatim>\<open>ContextBuilder\<close>). On an object that holds a null handle,
  \<^verbatim>\<open>Settings::set\<close>, \<^verbatim>\<open>Settings::update\<close> and the four operations of
  \<^verbatim>\<open>ContextBuilder\<close> throw \<^verbatim>\<open>C2paException\<close> and leave the object and the foreign
  layer as they were: no foreign call is made.
\<close>

theorem C2_moved_from_objects:
  "settings_ptr (snd (Settings_move_ctor sa)) = None
   \<and> settings_ptr (fst (snd (Settings_move_assign False sb sa w))) = None
   \<and> \<not> Settings_is_valid (snd (Settings_move_ctor sa))
   \<and> \<not> Settings_is_valid (fst (snd (Settings_move_assign False sb sa w)))
   \<and> context_ptr (snd (Context_move_ctor ca)) = None
   \<and> context_ptr (fst (snd (Context_move_assign False cb ca w))) = None
   \<and> \<not> Context_is_valid (snd (Context_move_ctor ca))
   \<and> \<not> Context_is_valid (fst (snd (Context_move_assign False cb ca w)))
   \<and> context_builder (snd (ContextBuilder_move_ctor ba)) = None
   \<and> context_builder (fst (snd (ContextBuilder_move_assign False bb ba w))) = None
   \<and> \<not> ContextBuilder_is_valid (snd (ContextBuilder_move_ctor ba))
   \<and> \<not> ContextBuilder_is_valid (fst (snd (ContextBuilder_move_assign False bb ba w)))
   \<and> c2pa_reader (snd (Reader_move_ctor ra)) = None
   \<and> c2pa_reader (fst (snd (Reader_move_assign False rb ra w))) = None
   \<and> builder (snd (Builder_move_ctor ua)) = None
   \<and> builder (fst (snd (Builder_move_assign False ub ua w))) = None
   \<and> signer (snd (Signer_move_ctor ga)) = None
   \<and> signer (fst (snd (Signer_move_assign False gb ga w))) = None
   \<and> (settings_ptr a = None \<longrightarrow>
        Settings_set a r w = (Inl (C2paException ''Settings object is invalid''), a, w)
        \<and> Settings_update a r w = (Inl (C2paException ''Settings object is invalid''), a, w))
   \<and> (context_builder b = None \<longrightarrow>
        ContextBuilder_with_settings b st r w
          = (Inl (C2paException ''ContextBuilder is invalid (moved from)''), b, w)
        \<and> ContextBuilder_with_json b n u r w
          = (Inl (C2paException ''ContextBuilder is invalid (moved from)''), b, w)
        \<and> ContextBuilder_with_json_settings_file b path opens n u r w
          = (Inl (C2paException ''ContextBuilder is invalid (moved from)''), b, w)
        \<and> ContextBuilder_create_context b h w
          = (Inl (C2paException ''ContextBuilder is invalid (moved from)''), b, w))"
  by (simp add: moved_from_handles invalid_settings_refuses invalid_context_builder_refuses
                Settings_is_valid_def Context_is_valid_def ContextBuilder_is_valid_def)

theorem C2_moved_from_objects_witness:
  "Settings_set (snd (Settings_move_ctor \<lparr>settings_ptr = Some 1\<rparr>)) 0
     \<lparr>live = [1, 2], calls = [], double_release = False, last_error = ''''\<rparr>
     = (Inl (C2paException ''Settings object is invalid''), \<lparr>settings_ptr = None\<rparr>,
        \<lparr>live = [1, 2], calls = [], double_release = False, last_error = ''''\<rparr>)
   \<and> ContextBuilder_create_context (snd (ContextBuilder_move_ctor \<lparr>context_builder = Some 2\<rparr>)) (Some 3)
     \<lparr>live = [1, 2], calls = [], double_release = False, last_error = ''''\<rparr>
     = (Inl (C2paException ''ContextBuilder is invalid (moved from)''), \<lparr>context_builder = None\<rparr>,
        \<lparr>live = [1, 2], calls = [], double_release = False, last_error = ''''\<rparr>)"
  using C2_moved_from_objects
          [where a = "snd (Settings_move_ctor \<lparr>settings_ptr = Some 1\<rparr>)"
             and b = "snd (ContextBuilder_move_ctor \<lparr>context_builder = Some 2\<rparr>)"
             and sa = "\<lparr>settings_ptr = Some 1\<rparr>" and ba = "\<lparr>context_builder = Some 2\<rparr>"
             and r = 0 and h = "Some 3"
             and w = "\<lparr>live = [1, 2], calls = [], double_release = False, last_error = ''''\<rparr>"]
  by (simp add: Settings_move_ctor_def ContextBuilder_move_ctor_def)

subsection \<open>Construction\<close>

lemma last_error_kept:
  "last_error (foreign_call f h w) = last_error w"
  "last_error (foreign_create f h r w) = last_error w"
  "last_error (foreign_consume f h r w) = last_error w"
  "last_error (c2pa_free h w) = last_error w"
  "last_error (c2pa_release_stream h w) = last_error w"
  by (simp_all add: ffi_defs split: option.splits)

lemma adapter_ctor:
  "fst (CppStream_ctor std_istream None w)
     = Inl (C2paException ''Failed to create input stream wrapper: is stream open and valid?'')"
  "fst (CppStream_ctor std_ostream None w)
     = Inl (C2paException ''Failed to create output stream wrapper: is stream open and valid?'')"
  "fst (CppStream_ctor std_iostream None w)
     = Inl (C2paException ''Failed to create I/O stream wrapper: is stream open and valid?'')"
  "fst (CppStream_ctor T h w) = Inr () \<Longrightarrow> c_stream (fst (snd (CppStream_ctor T h w))) \<noteq> None"
  by (simp_all add: CppStream_ctor_def Let_def split: if_splits)

lemma settings_ctor:
  "fst (Settings_ctor None w) = Inl (C2paException ''Failed to create Settings'')"
  "fst (Settings_ctor_data None u w) = Inl (C2paException ''Failed to create Settings'')"
  "fst (Settings_ctor h w) = Inr () \<Longrightarrow> settings_ptr (fst (snd (Settings_ctor h w))) \<noteq> None"
  "fst (Settings_ctor_data h u w) = Inr () \<Longrightarrow> settings_ptr (fst (snd (Settings_ctor_data h u w))) \<noteq> None"
  by (simp_all add: Settings_ctor_def Settings_ctor_data_def Let_def split: if_splits)

lemma context_ctor:
  "fst (Context_ctor None w) = Inl (C2paException ''Failed to create Context'')"
  "fst (Context_ctor_ptr None) = Inl (C2paException ''Invalid context pointer'')"
  "Settings_is_valid st \<Longrightarrow>
     fst (Context_ctor_settings st None sr br w) = Inl (C2paException ''Failed to create Context builder'')"
  "Settings_is_valid st \<Longrightarrow> bh \<noteq> None \<Longrightarrow>
     fst (Context_ctor_settings st bh 0 None w) = Inl (C2paException ''Failed to build context'')"
  "fst (ContextBuilder_ctor None w) = Inl (C2paException ''Failed to create Context builder'')"
  "fst (Context_ctor h w) = Inr () \<Longrightarrow> context_ptr (fst (snd (Context_ctor h w))) \<noteq> None"
  "fst (Context_ctor_ptr h) = Inr () \<Longrightarrow> context_ptr (snd (Context_ctor_ptr h)) \<noteq> None"
  "fst (Context_ctor_settings st bh sr br w) = Inr () \<Longrightarrow>
     context_ptr (fst (snd (Context_ctor_settings st bh sr br w))) \<noteq> None"
  "fst (ContextBuilder_ctor h w) = Inr () \<Longrightarrow> context_builder (fst (snd (ContextBuilder_ctor h w))) \<noteq> None"
  by (simp_all add: Context_ctor_def Context_ctor_ptr_def Context_ctor_settings_def ContextBuilder_ctor_def
                    Let_def split: if_splits)

lemma context_ctor_settings_ok:
  "Context_ctor_settings st bh sr br w = (Inr (), c, w') \<Longrightarrow> context_ptr c \<noteq> None"
  by (auto simp: Context_ctor_settings_def Let_def split: if_splits)

lemma context_ctor_json:
  "fst (Context_ctor_json None u bh sr br w) = Inl (C2paException ''Failed to create Settings'')"
  "fst (Context_ctor_json h u bh sr br w) = Inr () \<Longrightarrow>
     context_ptr (fst (snd (Context_ctor_json h u bh sr br w))) \<noteq> None"
  by (auto simp: Context_ctor_json_def Settings_ctor_data_def Let_def
           split: if_splits prod.splits sum.splits dest: context_ctor_settings_ok)

lemma builder_ctor:
  "prov_is_valid ctx \<Longrightarrow>
     fst (Builder_ctor ctx None w) = Inl (C2paException ''Failed to create builder from context'')"
  "prov_is_valid ctx \<Longrightarrow>
     fst (Builder_ctor_definition ctx None wr w) = Inl (C2paException ''Failed to create builder from context'')"
  "prov_is_valid ctx \<Longrightarrow> h \<noteq> None \<Longrightarrow>
     fst (Builder_ctor_definition ctx h None w) = Inl (C2paException (last_error w))"
  "fst (Builder_ctor_json None w) = Inl (C2paException (last_error w))"
  "fst (Builder_ctor_archive None fr w)
     = Inl (C2paException ''Failed to create input stream wrapper: is stream open and valid?'')"
  "cr \<noteq> None \<Longrightarrow> fst (Builder_ctor_archive cr None w) = Inl (C2paException (last_error w))"
  "fst (Builder_ctor ctx h w) = Inr () \<Longrightarrow> builder (fst (snd (Builder_ctor ctx h w))) \<noteq> None"
  "fst (Builder_ctor_definition ctx h wr w) = Inr () \<Longrightarrow>
     builder (fst (snd (Builder_ctor_definition ctx h wr w))) \<noteq> None"
  "fst (Builder_ctor_json h w) = Inr () \<Longrightarrow> builder (fst (snd (Builder_ctor_json h w))) \<noteq> None"
  "fst (Builder_ctor_archive cr fr w) = Inr () \<Longrightarrow>
     builder (fst (snd (Builder_ctor_archive cr fr w))) \<noteq> None"
  by (auto simp: Builder_ctor_def Builder_ctor_definition_def Builder_ctor_json_def
                 Builder_ctor_archive_def CppStream_ctor_def C2paException_default_def
                 last_error_kept Let_def split: if_splits)

lemma reader_ctor:
  "prov_is_valid ctx \<Longrightarrow>
     fst (Reader_ctor ctx None cr wr w) = Inl (C2paException ''Failed to create reader from context'')"
  "prov_is_valid ctx \<Longrightarrow>
     fst (Reader_ctor_path ctx path opens None cr wr w)
       = Inl (C2paException ''Failed to create reader from context'')"
  "prov_is_valid ctx \<Longrightarrow> h \<noteq> None \<Longrightarrow> cr \<noteq> None \<Longrightarrow>
     fst (Reader_ctor ctx h cr None w) = Inl (C2paException (last_error w))"
  "prov_is_valid ctx \<Longrightarrow> h \<noteq> None \<Longrightarrow> cr \<noteq> None \<Longrightarrow>
     fst (Reader_ctor_path ctx path True h cr None w) = Inl (C2paException (last_error w))"
  "cr \<noteq> None \<Longrightarrow> fst (Reader_ctor_stream cr None w) = Inl (C2paException (last_error w))"
  "cr \<noteq> None \<Longrightarrow>
     fst (Reader_ctor_path_deprecated path True cr None w) = Inl (C2paException (last_error w))"
  "fst (Reader_ctor ctx h cr wr w) = Inr () \<Longrightarrow>
     c2pa_reader (fst (snd (Reader_ctor ctx h cr wr w))) \<noteq> None"
  "fst (Reader_ctor_path ctx path opens h cr wr w) = Inr () \<Longrightarrow>
     c2pa_reader (fst (snd (Reader_ctor_path ctx path opens h cr wr w))) \<noteq> None"
  "fst (Reader_ctor_stream cr fr w) = Inr () \<Longrightarrow>
     c2pa_reader (fst (snd (Reader_ctor_stream cr fr w))) \<noteq> None"
  "fst (Reader_ctor_path_deprecated path opens cr fr w) = Inr () \<Longrightarrow>
     c2pa_reader (fst (snd (Reader_ctor_path_deprecated path opens cr fr w))) \<noteq> None"
  by (auto simp: Reader_ctor_def Reader_ctor_path_def Reader_ctor_stream_def
                 Reader_ctor_path_deprecated_def CppStream_ctor_def C2paException_default_def
                 last_error_kept Let_def split: if_splits)

text \<open>
  C8, as stated, fails: when the factory call of \<^verbatim>\<open>Settings()\<close> returns null the
  constructor throws \<^verbatim>\<open>C2paException\<close> with a message of its own, not the message of
  the foreign layer's last-error slot.
\<close>

theorem C8_settings_message_counterexample:
  "Settings_ctor None \<lparr>live = [], calls = [], double_release = False, last_error = ''boom''\<rparr>
     = (Inl (C2paException ''Failed to create Settings''), \<lparr>settings_ptr = None\<rparr>,
        \<lparr>live = [], calls = [(c2pa_settings_new, None)], double_release = False,
         last_error = ''boom''\<rparr>)
   \<and> C2paException ''Failed to create Settings''
       \<noteq> C2paException_default
           \<lparr>live = [], calls = [(c2pa_settings_new, None)], double_release = False,
            last_error = ''boom''\<rparr>"
  by (simp add: Settings_ctor_def ffi_defs)

text \<open>
  C8, amended. For \<^verbatim>\<open>Settings\<close>, \<^verbatim>\<open>Context\<close>, \<^verbatim>\<open>ContextBuilder\<close>, \<^verbatim>\<open>Reader\<close>,
  \<^verbatim>\<open>Builder\<close> and the stream adapters, a constructor whose foreign factory call returns
  null throws \<^verbatim>\<open>C2paException\<close>; the message is written in the constructor for the
  creating calls of the context-based constructors and of the adapters, and is the
  foreign layer's last-error message for the attach calls and for the deprecated
  constructors. A constructor of these types that returns normally leaves an object
  with a non-null handle.
\<close>

theorem C8_failed_factory_raises:
  "fst (Settings_ctor None w) = Inl (C2paException ''Failed to create Settings'')
   \<and> fst (Settings_ctor_data None u w) = Inl (C2paException ''Failed to create Settings'')
   \<and> fst (Context_ctor None w) = Inl (C2paException ''Failed to create Context'')
   \<and> fst (Context_ctor_ptr None) = Inl (C2paException ''Invalid context pointer'')
   \<and> (Settings_is_valid st \<longrightarrow>
        fst (Context_ctor_settings st None sr br w) = Inl (C2paException ''Failed to create Context builder''))
   \<and> (Settings_is_valid st \<and> bh \<noteq> None \<longrightarrow>
        fst (Context_ctor_settings st bh 0 None w) = Inl (C2paException ''Failed to build context''))
   \<and> fst (Context_ctor_json None u bh sr br w) = Inl (C2paException ''Failed to create Settings'')
   \<and> fst (ContextBuilder_ctor None w) = Inl (C2paException ''Failed to create Context builder'')
   \<and> (prov_is_valid ctx \<longrightarrow>
        fst (Builder_ctor ctx None w) = Inl (C2paException ''Failed to create builder from context'')
        \<and> fst (Builder_ctor_definition ctx None wr w)
            = Inl (C2paException ''Failed to create builder from context'')
        \<and> fst (Reader_ctor ctx None cr wr w) = Inl (C2paException ''Failed to create reader from context'')
        \<and> fst (Reader_ctor_path ctx path opens None cr wr w)
            = Inl (C2paException ''Failed to create reader from context''))
   \<and> (prov_is_valid ctx \<and> h \<noteq> None \<longrightarrow>
        fst (Builder_ctor_definition ctx h None w) = Inl (C2paException (last_error w)))
   \<and> (prov_is_valid ctx \<and> h \<noteq> None \<and> cr \<noteq> None \<longrightarrow>
        fst (Reader_ctor ctx h cr None w) = Inl (C2paException (last_error w))
        \<and> fst (Reader_ctor_path ctx path True h cr None w) = Inl (C2paException (last_error w)))
   \<and> fst (Builder_ctor_json None w) = Inl (C2paException (last_error w))
   \<and> (cr \<noteq> None \<longrightarrow>
        fst (Builder_ctor_archive cr None w) = Inl (C2paException (last_error w))
        \<and> fst (Reader_ctor_stream cr None w) = Inl (C2paException (last_error w))
        \<and> fst (Reader_ctor_path_deprecated path True cr None w) = Inl (C2paException (last_error w)))
   \<and> fst (CppStream_ctor std_istream None w)
       = Inl (C2paException ''Failed to create input stream wrapper: is stream open and valid?'')
   \<and> fst (CppStream_ctor std_ostream None w)
       = Inl (C2paException ''Failed to create output stream wrapper: is stream open and valid?'')
   \<and> fst (CppStream_ctor std_iostream None w)
       = Inl (C2paException ''Failed to create I/O stream wrapper: is stream open and valid?'')
   \<and> (fst (Settings_ctor h w) = Inr () \<longrightarrow> settings_ptr (fst (snd (Settings_ctor h w))) \<noteq> None)
   \<and> (fst (Settings_ctor_data h u w) = Inr () \<longrightarrow>
        settings_ptr (fst (snd (Settings_ctor_data h u w))) \<noteq> None)
   \<and> (fst (Context_ctor h w) = Inr () \<longrightarrow> context_ptr (fst (snd (Context_ctor h w))) \<noteq> None)
   \<and> (fst (Context_ctor_ptr h) = Inr () \<longrightarrow> context_ptr (snd (Context_ctor_ptr h)) \<noteq> None)
   \<and> (fst (Context_ctor_settings st bh sr br w) = Inr () \<longrightarrow>
        context_ptr (fst (snd (Context_ctor_settings st bh sr br w))) \<noteq> None)
   \<and> (fst (Context_ctor_json h u bh sr br w) = Inr () \<longrightarrow>
        context_ptr (fst (snd (Context_ctor_json h u bh sr br w))) \<noteq> None)
   \<and> (fst (ContextBuilder_ctor h w) = Inr () \<longrightarrow>
        context_builder (fst (snd (ContextBuilder_ctor h w))) \<noteq> None)
   \<and> (fst (Builder_ctor ctx h w) = Inr () \<longrightarrow> builder (fst (snd (Builder_ctor ctx h w))) \<noteq> None)
   \<and> (fst (Builder_ctor_definition ctx h wr w) = Inr () \<longrightarrow>
        builder (fst (snd (Builder_ctor_definition ctx h wr w))) \<noteq> None)
   \<and> (fst (Builder_ctor_json h w) = Inr () \<longrightarrow> builder (fst (snd (Builder_ctor_json h w))) \<noteq> None)
   \<and> (fst (Builder_ctor_archive cr fr w) = Inr () \<longrightarrow>
        builder (fst (snd (Builder_ctor_archive cr fr w))) \<noteq> None)
   \<and> (fst (Reader_ctor ctx h cr wr w) = Inr () \<longrightarrow>
        c2pa_reader (fst (snd (Reader_ctor ctx h cr wr w))) \<noteq> None)
   \<and> (fst (Reader_ctor_path ctx path opens h cr wr w) = Inr () \<longrightarrow>
        c2pa_reader (fst (snd (Reader_ctor_path ctx path opens h cr wr w))) \<noteq> None)
   \<and> (fst (Reader_ctor_stream cr fr w) = Inr () \<longrightarrow>
        c2pa_reader (fst (snd (Reader_ctor_stream cr fr w))) \<noteq> None)
   \<and> (fst (Reader_ctor_path_deprecated path opens cr fr w) = Inr () \<longrightarrow>
        c2pa_reader (fst (snd (Reader_ctor_path_deprecated path opens cr fr w))) \<noteq> None)
   \<and> (fst (CppStream_ctor T h w) = Inr () \<longrightarrow> c_stream (fst (snd (CppStream_ctor T h w))) \<noteq> None)"
  by (intro conjI impI adapter_ctor settings_ctor context_ctor context_ctor_json builder_ctor reader_ctor)
     simp_all

theorem C8_failed_factory_raises_witness:
  "Builder_ctor \<lparr>prov_is_valid = True, prov_c_context = Some 1\<rparr> None
     \<lparr>live = [1], calls = [], double_release = False, last_error = ''boom''\<rparr>
     = (Inl (C2paException ''Failed to create builder from context''), \<lparr>builder = None\<rparr>,
        \<lparr>live = [1], calls = [(c2pa_builder_from_context, Some 1)], double_release = False,
         last_error = ''boom''\<rparr>)
   \<and> Reader_ctor \<lparr>prov_is_valid = True, prov_c_context = Some 1\<rparr> (Some 2) (Some 3) None
     \<lparr>live = [1], calls = [], double_release = False, last_error = ''boom''\<rparr>
     = (Inl (C2paException ''boom''),
        \<lparr>c2pa_reader = None, owned_stream = False, cpp_stream = Some \<lparr>c_stream = Some 3\<rparr>\<rparr>,
        \<lparr>live = [1],
         calls = [(c2pa_reader_from_context, Some 1), (c2pa_create_stream, None),
                  (c2pa_reader_with_stream, Some 2), (c2pa_release_stream_fn, Some 3)],
         double_release = False, last_error = ''boom''\<rparr>)
   \<and> Reader_ctor \<lparr>prov_is_valid = True, prov_c_context = Some 1\<rparr> (Some 2) (Some 3) (Some 4)
     \<lparr>live = [1], calls = [], double_release = False, last_error = ''boom''\<rparr>
     = (Inr (),
        \<lparr>c2pa_reader = Some 4, owned_stream = False, cpp_stream = Some \<lparr>c_stream = Some 3\<rparr>\<rparr>,
        \<lparr>live = [4, 3, 1],
         calls = [(c2pa_reader_from_context, Some 1), (c2pa_create_stream, None),
                  (c2pa_reader_with_stream, Some 2)],
         double_release = False, last_error = ''boom''\<rparr>)"
  using C8_failed_factory_raises
          [where ctx = "\<lparr>prov_is_valid = True, prov_c_context = Some 1\<rparr>" and h = "Some 2"
             and cr = "Some 3" and wr = "Some 4" and st = "\<lparr>settings_ptr = Some 5\<rparr>" and bh = "Some 6"
             and w = "\<lparr>live = [1], calls = [], double_release = False, last_error = ''boom''\<rparr>"]
  by (simp add: Builder_ctor_def Reader_ctor_def CppStream_ctor_def Reader_members_dtor_def
                CppStream_dtor_def ffi_defs Let_def)

subsection \<open>Exception types\<close>

text \<open>
  C9. Two public operations throw exceptions of other types when a file does not open:
  \<^verbatim>\<open>Builder::sign\<close> with paths throws \<^verbatim>\<open>std::runtime_error\<close> for the destination
  (and \<^verbatim>\<open>C2paException\<close> for the source), and the \<^verbatim>\<open>Reader\<close> constructor with a
  path throws \<^verbatim>\<open>std::system_error\<close>.
\<close>

theorem C9_file_open_failures_throw_other_types:
  "Builder_sign_path \<lparr>builder = Some 1\<rparr> ''in.jpg'' ''out/out.jpg'' \<lparr>signer = Some 2\<rparr>
     \<lparr>source_opens = True, dest_dir_exists = True, create_directories_ok = True, dest_opens = False\<rparr>
     (Some 3) (Some 4) 3 (Some [1, 2, 3])
     \<lparr>live = [1, 2], calls = [], double_release = False, last_error = ''''\<rparr>
     = (Inl (std_runtime_error ''Failed to open destination file: out/out.jpg''),
        \<lparr>builder = Some 1\<rparr>,
        \<lparr>live = [1, 2], calls = [], double_release = False, last_error = ''''\<rparr>)
   \<and> Builder_sign_path \<lparr>builder = Some 1\<rparr> ''in.jpg'' ''out/out.jpg'' \<lparr>signer = Some 2\<rparr>
     \<lparr>source_opens = False, dest_dir_exists = True, create_directories_ok = True, dest_opens = True\<rparr>
     (Some 3) (Some 4) 3 (Some [1, 2, 3])
     \<lparr>live = [1, 2], calls = [], double_release = False, last_error = ''''\<rparr>
     = (Inl (C2paException ''Failed to open file: in.jpg''),
        \<lparr>builder = Some 1\<rparr>,
        \<lparr>live = [1, 2], calls = [], double_release = False, last_error = ''''\<rparr>)
   \<and> Reader_ctor_path \<lparr>prov_is_valid = True, prov_c_context = Some 1\<rparr> ''missing.jpg'' False
     (Some 2) (Some 3) (Some 4)
     \<lparr>live = [1], calls = [], double_release = False, last_error = ''''\<rparr>
     = (Inl (std_system_error ''Failed to open file: missing.jpg''),
        \<lparr>c2pa_reader = Some 2, owned_stream = True, cpp_stream = None\<rparr>,
        \<lparr>live = [1], calls = [(c2pa_reader_from_context, Some 1), (c2pa_free_fn, Some 2)],
         double_release = False, last_error = ''''\<rparr>)"
  by (simp add: Builder_sign_path_def open_file_binary_def Reader_ctor_path_def ffi_defs Let_def)

end
